theory Spec2Isabelle
  imports Complex_Main
begin

section \<open>JavaScript values\<close>

text \<open>
  A JavaScript \<^verbatim>\<open>number\<close> is a real number or NaN.  Comparisons are the IEEE ones: every
  ordering comparison and \<^verbatim>\<open>===\<close> with NaN on either side is false.  Rounding of arithmetic
  and the two infinities are not represented.
\<close>

datatype number = Num real | NaN

definition num_lt :: "number \<Rightarrow> number \<Rightarrow> bool" where
  "num_lt a b = (case a of Num x \<Rightarrow> (case b of Num y \<Rightarrow> x < y | NaN \<Rightarrow> False) | NaN \<Rightarrow> False)"

definition num_ge :: "number \<Rightarrow> number \<Rightarrow> bool" where
  "num_ge a b = (case a of Num x \<Rightarrow> (case b of Num y \<Rightarrow> x \<ge> y | NaN \<Rightarrow> False) | NaN \<Rightarrow> False)"

definition num_seq :: "number \<Rightarrow> number \<Rightarrow> bool" where
  "num_seq a b = (case a of Num x \<Rightarrow> (case b of Num y \<Rightarrow> x = y | NaN \<Rightarrow> False) | NaN \<Rightarrow> False)"

definition num_sub :: "number \<Rightarrow> number \<Rightarrow> number" where
  "num_sub a b = (case a of Num x \<Rightarrow> (case b of Num y \<Rightarrow> Num (x - y) | NaN \<Rightarrow> NaN) | NaN \<Rightarrow> NaN)"

definition num_mul :: "number \<Rightarrow> number \<Rightarrow> number" where
  "num_mul a b = (case a of Num x \<Rightarrow> (case b of Num y \<Rightarrow> Num (x * y) | NaN \<Rightarrow> NaN) | NaN \<Rightarrow> NaN)"

definition num_div :: "number \<Rightarrow> number \<Rightarrow> number" where
  "num_div a b =
     (case a of Num x \<Rightarrow> (case b of Num y \<Rightarrow> (if y = 0 then NaN else Num (x / y)) | NaN \<Rightarrow> NaN)
      | NaN \<Rightarrow> NaN)"

text \<open>Truthiness: \<^verbatim>\<open>0\<close>, NaN and the empty string are falsy; every array is truthy.\<close>

definition truthy_num :: "number \<Rightarrow> bool" where
  "truthy_num n = (case n of Num x \<Rightarrow> x \<noteq> 0 | NaN \<Rightarrow> False)"

definition num_or :: "number \<Rightarrow> number \<Rightarrow> number" where
  "num_or n d = (if truthy_num n then n else d)"

definition str_or :: "string \<Rightarrow> string \<Rightarrow> string" where
  "str_or s d = (if s \<noteq> [] then s else d)"

text \<open>A property of a JSON object as it arrives: missing, \<^verbatim>\<open>null\<close>, or a value.\<close>

datatype 'a json_field = Absent | Null | Val 'a

definition field_num_or :: "number json_field \<Rightarrow> number \<Rightarrow> number" where
  "field_num_or f d = (case f of Val n \<Rightarrow> num_or n d | _ \<Rightarrow> d)"

definition field_str_or :: "string json_field \<Rightarrow> string \<Rightarrow> string" where
  "field_str_or f d = (case f of Val s \<Rightarrow> str_or s d | _ \<Rightarrow> d)"

definition field_list_or :: "'a list json_field \<Rightarrow> 'a list \<Rightarrow> 'a list" where
  "field_list_or f d = (case f of Val xs \<Rightarrow> xs | _ \<Rightarrow> d)"

subsection \<open>Strings\<close>

text \<open>\<^verbatim>\<open>s.includes(t)\<close>: \<open>t\<close> occurs in \<open>s\<close> as a contiguous substring.\<close>

fun str_includes :: "string \<Rightarrow> string \<Rightarrow> bool" where
  "str_includes [] t = (t = [])"
| "str_includes (c # s) t = (take (length t) (c # s) = t \<or> str_includes s t)"

text \<open>Decimal rendering of a natural number, as a template literal prints a length.\<close>

definition digit_char :: "nat \<Rightarrow> char" where
  "digit_char d = char_of (48 + d)"

fun showNat :: "nat \<Rightarrow> string" where
  "showNat n = (if n < 10 then [digit_char n] else showNat (n div 10) @ [digit_char (n mod 10)])"

declare showNat.simps [simp del]

text \<open>
  \<^verbatim>\<open>path.basename\<close> (POSIX): trailing slashes are dropped, then the text after the last
  slash is returned.
\<close>

definition basename :: "string \<Rightarrow> string" where
  "basename p =
     (let q = dropWhile (\<lambda>c. c = CHR ''/'') (rev p)
      in rev (takeWhile (\<lambda>c. c \<noteq> CHR ''/'') q))"

section \<open>Data model\<close>

text \<open>\<^verbatim>\<open>Config\<close> of config.ts.\<close>

record auth =
  username :: string
  password :: string

record config =
  transmissionUrl :: string
  transmissionAuth :: "auth option"
  allowedLabels :: "string list"
  excludedTrackers :: "string list"
  maxRatio :: number
  deadRetentionHours :: number
  maxAgeHours :: number
  logLevel :: string
  dryRun :: bool
  schedule :: "string option"

text \<open>
  A torrent as the daemon sends it (\<^verbatim>\<open>TorrentGetResponse\<close>): every property that the
  client defaults may be missing or null.
\<close>

record wire_tracker =
  w_announce :: "string json_field"
  w_tracker_id :: "number json_field"
  w_scrape :: "string json_field"
  w_tier :: "number json_field"

record wire_torrent =
  w_id :: number
  w_name :: string
  w_percentDone :: "number json_field"
  w_uploadRatio :: "number json_field"
  w_addedDate :: "number json_field"
  w_downloadDir :: "string json_field"
  w_labels :: "string list json_field"
  w_error :: "number json_field"
  w_errorString :: "string json_field"
  w_trackers :: "wire_tracker list json_field"

text \<open>\<^verbatim>\<open>RawTorrent\<close> of the client.\<close>

record tracker =
  announce :: string
  tracker_id :: number
  scrape :: string
  tier :: number

record raw_torrent =
  raw_id :: number
  raw_name :: string
  raw_percentDone :: number
  raw_uploadRatio :: number
  raw_addedDate :: number
  raw_downloadDir :: string
  raw_labels :: "string list"
  raw_error :: number
  raw_errorString :: string
  raw_trackers :: "tracker list"

text \<open>\<^verbatim>\<open>Torrent\<close>, \<^verbatim>\<open>RemovalReason\<close> and \<^verbatim>\<open>RemovalCandidate\<close> of handler.ts.\<close>

record torrent =
  torrent_id :: number
  name :: string
  percentDone :: number
  uploadRatio :: number
  ageHours :: number
  label :: string
  downloadDir :: string
  trackerUrls :: "string list"
  error :: number
  errorString :: string

datatype RemovalReason = Ratio | Ttl | Dead

record RemovalCandidate =
  torrent :: torrent
  reason :: RemovalReason

section \<open>Normalisation at fetch and hydration\<close>

text \<open>The object built for each tracker and each torrent inside \<^verbatim>\<open>getTorrents\<close>.\<close>

definition normalizeTracker :: "wire_tracker \<Rightarrow> tracker" where
  "normalizeTracker tr =
     \<lparr> announce = field_str_or (w_announce tr) [],
       tracker_id = field_num_or (w_tracker_id tr) (Num 0),
       scrape = field_str_or (w_scrape tr) [],
       tier = field_num_or (w_tier tr) (Num 0) \<rparr>"

definition normalizeTorrent :: "wire_torrent \<Rightarrow> raw_torrent" where
  "normalizeTorrent t =
     \<lparr> raw_id = w_id t,
       raw_name = w_name t,
       raw_percentDone = field_num_or (w_percentDone t) (Num 0),
       raw_uploadRatio = field_num_or (w_uploadRatio t) (Num 0),
       raw_addedDate = field_num_or (w_addedDate t) (Num 0),
       raw_downloadDir = field_str_or (w_downloadDir t) [],
       raw_labels = field_list_or (w_labels t) [],
       raw_error = field_num_or (w_error t) (Num 0),
       raw_errorString = field_str_or (w_errorString t) [],
       raw_trackers = map normalizeTracker (field_list_or (w_trackers t) []) \<rparr>"

text \<open>
  \<^verbatim>\<open>Handler.hydrate\<close>; \<open>nowMs\<close> is the reading of \<^verbatim>\<open>Date.now()\<close>, in milliseconds.
\<close>

definition hydrate :: "real \<Rightarrow> raw_torrent \<Rightarrow> torrent" where
  "hydrate nowMs raw =
     (let nowSeconds = Num (of_int \<lfloor>nowMs / 1000\<rfloor>);
          ageHours = num_div (num_sub nowSeconds (raw_addedDate raw)) (Num 3600);
          label = (if raw_labels raw \<noteq> [] then hd (raw_labels raw)
                   else basename (str_or (raw_downloadDir raw) []))
      in \<lparr> torrent_id = raw_id raw,
           name = raw_name raw,
           percentDone = num_mul (num_or (raw_percentDone raw) (Num 0)) (Num 100),
           uploadRatio = num_or (raw_uploadRatio raw) (Num 0),
           ageHours = ageHours,
           label = label,
           downloadDir = str_or (raw_downloadDir raw) [],
           trackerUrls = map (\<lambda>t. str_or (announce t) []) (raw_trackers raw),
           error = num_or (raw_error raw) (Num 0),
           errorString = str_or (raw_errorString raw) [] \<rparr>)"

section \<open>Removal rule engine\<close>

definition checkRatioRule :: "config \<Rightarrow> torrent \<Rightarrow> RemovalCandidate option" where
  "checkRatioRule cfg t =
     (if num_seq (uploadRatio t) (Num (- 1)) \<or> num_lt (uploadRatio t) (maxRatio cfg) then None
      else Some \<lparr> torrent = t, reason = Ratio \<rparr>)"

definition checkDeadRule :: "config \<Rightarrow> torrent \<Rightarrow> RemovalCandidate option" where
  "checkDeadRule cfg t =
     (let isIncomplete = num_lt (percentDone t) (Num 100);
          isPastDeadRetention = num_ge (ageHours t) (deadRetentionHours cfg)
      in if \<not> isIncomplete \<or> \<not> isPastDeadRetention then None
         else Some \<lparr> torrent = t, reason = Dead \<rparr>)"

definition checkTtlRule :: "config \<Rightarrow> torrent \<Rightarrow> RemovalCandidate option" where
  "checkTtlRule cfg t =
     (if num_lt (ageHours t) (maxAgeHours cfg) then None
      else Some \<lparr> torrent = t, reason = Ttl \<rparr>)"

text \<open>\<^verbatim>\<open>a || b\<close> on values that are an object or \<^verbatim>\<open>null\<close>.\<close>

definition orElse :: "'a option \<Rightarrow> 'a option \<Rightarrow> 'a option" where
  "orElse a b = (case a of Some x \<Rightarrow> Some x | None \<Rightarrow> b)"

definition evaluate :: "config \<Rightarrow> torrent \<Rightarrow> RemovalCandidate list" where
  "evaluate cfg t =
     (let result = orElse (checkRatioRule cfg t) (orElse (checkDeadRule cfg t) (checkTtlRule cfg t))
      in case result of Some c \<Rightarrow> [c] | None \<Rightarrow> [])"

section \<open>Eligibility filtering\<close>

text \<open>
  A thrown exception: an \<^verbatim>\<open>Error\<close> or a \<^verbatim>\<open>TypeError\<close>, with its message.
  \<open>message_of\<close> is \<^verbatim>\<open>err instanceof Error ? err.message : String(err)\<close>.
\<close>

datatype js_error = Error string | TypeError string

definition message_of :: "js_error \<Rightarrow> string" where
  "message_of e = (case e of Error m \<Rightarrow> m | TypeError m \<Rightarrow> m)"

text \<open>
  The operations of the platform that the handler calls are parameters:
  \<open>toLowerCase pf s\<close> is \<^verbatim>\<open>s.toLowerCase()\<close>, and \<open>hostname pf url\<close> is
  \<^verbatim>\<open>new URL(url).hostname\<close>, \<open>None\<close> when the constructor throws.
\<close>

type_synonym url_parser = "string \<Rightarrow> string option"

record platform =
  toLowerCase :: "string \<Rightarrow> string"
  hostname :: url_parser

definition isAllowedLabel :: "config \<Rightarrow> platform \<Rightarrow> torrent \<Rightarrow> bool" where
  "isAllowedLabel cfg pf t =
     (let label = toLowerCase pf (label t) in label \<in> set (allowedLabels cfg))"

text \<open>\<^verbatim>\<open>this.config.excludedTrackers.some((t) => host.includes(t))\<close>\<close>

definition hostExcluded :: "config \<Rightarrow> string \<Rightarrow> bool" where
  "hostExcluded cfg host = list_ex (\<lambda>t. str_includes host t) (excludedTrackers cfg)"

text \<open>The \<^verbatim>\<open>for\<close> loop of \<^verbatim>\<open>hasExcludedTracker\<close> over the tracker URLs still to visit.\<close>

fun scanTrackers :: "config \<Rightarrow> platform \<Rightarrow> string list \<Rightarrow> js_error + bool" where
  "scanTrackers cfg pf [] = Inr False"
| "scanTrackers cfg pf (url # urls) =
     (case hostname pf url of
        None \<Rightarrow> Inl (TypeError ''Invalid URL'')
      | Some h \<Rightarrow>
          (let host = toLowerCase pf h
           in if hostExcluded cfg host then Inr True else scanTrackers cfg pf urls))"

definition hasExcludedTracker :: "config \<Rightarrow> platform \<Rightarrow> torrent \<Rightarrow> js_error + bool" where
  "hasExcludedTracker cfg pf t =
     (if length (excludedTrackers cfg) = 0 then Inr False
      else scanTrackers cfg pf (trackerUrls t))"

text \<open>\<^verbatim>\<open>Array.filter\<close> with a predicate that may throw: the first exception ends the filter.\<close>

fun filter_throwing :: "('a \<Rightarrow> js_error + bool) \<Rightarrow> 'a list \<Rightarrow> js_error + 'a list" where
  "filter_throwing p [] = Inr []"
| "filter_throwing p (x # xs) =
     (case p x of
        Inl e \<Rightarrow> Inl e
      | Inr b \<Rightarrow>
          (case filter_throwing p xs of
             Inl e \<Rightarrow> Inl e
           | Inr ys \<Rightarrow> Inr (if b then x # ys else ys)))"

text \<open>The predicate of the second filter, \<^verbatim>\<open>(t) => !this.hasExcludedTracker(t)\<close>.\<close>

definition noExcludedTracker :: "config \<Rightarrow> platform \<Rightarrow> torrent \<Rightarrow> js_error + bool" where
  "noExcludedTracker cfg pf t =
     (case hasExcludedTracker cfg pf t of Inl e \<Rightarrow> Inl e | Inr b \<Rightarrow> Inr (\<not> b))"

text \<open>Lines 63 and 64 of \<^verbatim>\<open>run\<close>: the label filter, then the tracker filter on its result.\<close>

definition select_eligible ::
  "config \<Rightarrow> platform \<Rightarrow> torrent list \<Rightarrow> js_error + (torrent list \<times> torrent list)" where
  "select_eligible cfg pf hydrated =
     (let byLabel = filter (isAllowedLabel cfg pf) hydrated
      in case filter_throwing (noExcludedTracker cfg pf) byLabel of
           Inl e \<Rightarrow> Inl e
         | Inr eligible \<Rightarrow> Inr (byLabel, eligible))"

section \<open>RPC session client\<close>

text \<open>
  The value of the \<^verbatim>\<open>Authorization\<close> header: \<open>Basic c\<close> stands for the text
  \<^verbatim>\<open>Basic\<close> followed by the Base64 encoding of \<open>c\<close>.
\<close>

datatype auth_header = Basic string

datatype rpc_args = TorrentGetArgs "string list" | TorrentRemoveArgs "number list" bool

record request =
  rpc_method :: string
  rpc_arguments :: rpc_args
  authorization :: "auth_header option"
  session_header :: "string option"

record torrent_get_response =
  torrents :: "wire_torrent list json_field"

text \<open>
  A response body: \<open>Unreadable m\<close> when reading it as JSON throws with message \<open>m\<close>,
  otherwise the \<^verbatim>\<open>result\<close> text and the \<^verbatim>\<open>arguments\<close> property.
\<close>

datatype body = Unreadable string | Json string "torrent_get_response json_field"

record response =
  status :: nat
  statusText :: string
  new_session :: "string option"
  body :: body

text \<open>\<^verbatim>\<open>fetch\<close> either rejects with a message or resolves to a response.\<close>

datatype fetch_outcome = Rejected string | Responded response

text \<open>
  The network answers the \<open>n\<close>-th request of the client (counted from 0) as a function of
  \<open>n\<close> and of the request itself.
\<close>

type_synonym network = "nat \<Rightarrow> request \<Rightarrow> fetch_outcome"

datatype api_call = GetTorrents | RemoveTorrents "number list" bool

datatype log_line = LogInfo string | LogWarn string | LogError string | LogTable "torrent list"

text \<open>
  The mutable state of a client and its handler, with the effects they have had: the
  requests sent, the delays awaited (milliseconds), the client methods invoked and the
  lines logged.
\<close>

record state =
  client_url :: string
  client_auth :: "auth option"
  sessionId :: "string option"
  isFirstRun :: bool
  sent :: "request list"
  slept :: "nat list"
  calls :: "api_call list"
  logged :: "log_line list"

definition log_write :: "log_line \<Rightarrow> state \<Rightarrow> state" where
  "log_write l st = st\<lparr>logged := logged st @ [l]\<rparr>"

definition sleep :: "nat \<Rightarrow> state \<Rightarrow> state" where
  "sleep ms st = st\<lparr>slept := slept st @ [ms]\<rparr>"

definition getAuthHeader :: "auth option \<Rightarrow> auth_header option" where
  "getAuthHeader a =
     (case a of
        None \<Rightarrow> None
      | Some c \<Rightarrow>
          if username c \<noteq> [] \<or> password c \<noteq> []
          then Some (Basic (str_or (username c) [] @ '':'' @ str_or (password c) []))
          else None)"

definition build_request :: "state \<Rightarrow> string \<Rightarrow> rpc_args \<Rightarrow> request" where
  "build_request st method args =
     \<lparr> rpc_method = method,
       rpc_arguments = args,
       authorization = getAuthHeader (client_auth st),
       session_header =
         (case sessionId st of None \<Rightarrow> None | Some s \<Rightarrow> if s \<noteq> [] then Some s else None) \<rparr>"

definition ok :: "response \<Rightarrow> bool" where
  "ok r = (200 \<le> status r \<and> status r \<le> 299)"

definition wrap_rpc_error :: "string \<Rightarrow> js_error" where
  "wrap_rpc_error m = Error (''Transmission RPC call failed: '' @ m)"

text \<open>Lines 101 to 105 of \<^verbatim>\<open>rpc\<close>: the session token of a response is kept.\<close>

definition capture_session :: "response \<Rightarrow> state \<Rightarrow> state" where
  "capture_session r st =
     (if status r = 409 \<or> new_session r \<noteq> None then
        (case new_session r of
           Some newSessionId \<Rightarrow>
             if newSessionId \<noteq> [] then st\<lparr>sessionId := Some newSessionId\<rparr> else st
         | None \<Rightarrow> st)
      else st)"

text \<open>The two errors that \<^verbatim>\<open>rpc\<close> throws by itself, as they leave its \<^verbatim>\<open>catch\<close> block.\<close>

definition negotiation_failed :: js_error where
  "negotiation_failed =
     wrap_rpc_error ''Failed to negotiate Transmission session after multiple attempts (409).''"

definition api_failed :: "response \<Rightarrow> js_error" where
  "api_failed r =
     wrap_rpc_error (''API request failed: ['' @ showNat (status r) @ ''] '' @ statusText r)"

text \<open>One pass through the body of \<^verbatim>\<open>rpc\<close>: it returns, throws, or calls itself again.\<close>

datatype 'a rpc_step = Return "js_error + 'a" | Retransmit

definition rpc_once ::
  "network \<Rightarrow> string \<Rightarrow> rpc_args \<Rightarrow> nat \<Rightarrow> state
    \<Rightarrow> torrent_get_response json_field rpc_step \<times> state" where
  "rpc_once net method args retryCount st =
     (let req = build_request st method args;
          st1 = st\<lparr>sent := sent st @ [req]\<rparr>
      in case net (length (sent st)) req of
           Rejected m \<Rightarrow> (Return (Inl (wrap_rpc_error m)), st1)
         | Responded r \<Rightarrow>
             (let st2 = capture_session r st1
              in if status r = 409 then
                   (if retryCount \<ge> 2 then
                      (Return (Inl negotiation_failed), st2)
                    else (Retransmit, st2))
                 else if \<not> ok r then
                   (Return (Inl (api_failed r)), st2)
                 else
                   (case body r of
                      Unreadable m \<Rightarrow> (Return (Inl (wrap_rpc_error m)), st2)
                    | Json result arguments \<Rightarrow>
                        if result \<noteq> ''success''
                        then (Return (Inl (wrap_rpc_error (''RPC error: '' @ result))), st2)
                        else (Return (Inr arguments), st2))))"

function rpc ::
  "network \<Rightarrow> string \<Rightarrow> rpc_args \<Rightarrow> nat \<Rightarrow> state
    \<Rightarrow> (js_error + torrent_get_response json_field) \<times> state" where
  "rpc net method args retryCount st =
     (case rpc_once net method args retryCount st of
        (Retransmit, st') \<Rightarrow> rpc net method args (retryCount + 1) st'
      | (Return r, st') \<Rightarrow> (r, st'))"
  by pat_completeness auto
termination
  by (relation "measure (\<lambda>(net, method, args, retryCount, st). 3 - retryCount)")
     (auto simp: rpc_once_def Let_def split: fetch_outcome.splits if_splits body.splits)

declare rpc.simps [simp del]

text \<open>The test on the message in the \<^verbatim>\<open>catch\<close> block of \<^verbatim>\<open>getTorrents\<close>.\<close>

definition is_connectivity :: "string \<Rightarrow> bool" where
  "is_connectivity message =
     (str_includes message ''ENOTFOUND'' \<or>
      str_includes message ''ECONNREFUSED'' \<or>
      str_includes message ''Connect timeout'' \<or>
      str_includes message ''getaddrinfo ENOTFOUND'' \<or>
      str_includes message ''fetch failed'' \<or>
      str_includes message ''ECONNRESET'')"

definition torrent_get_fields :: "string list" where
  "torrent_get_fields =
     [''id'', ''name'', ''percentDone'', ''uploadRatio'', ''addedDate'', ''downloadDir'',
      ''labels'', ''error'', ''errorString'', ''trackers'']"

text \<open>
  Reading \<^verbatim>\<open>response.torrents\<close> throws when \<^verbatim>\<open>arguments\<close> was missing or null;
  otherwise every torrent is normalised.
\<close>

definition read_torrents :: "torrent_get_response json_field \<Rightarrow> js_error + raw_torrent list" where
  "read_torrents response =
     (case response of
        Absent \<Rightarrow>
          Inl (TypeError (''Cannot read properties of undefined (reading '' @ [CHR 0x27] @
                          ''torrents'' @ [CHR 0x27] @ '')''))
      | Null \<Rightarrow>
          Inl (TypeError (''Cannot read properties of null (reading '' @ [CHR 0x27] @
                          ''torrents'' @ [CHR 0x27] @ '')''))
      | Val r \<Rightarrow> Inr (map normalizeTorrent (field_list_or (torrents r) [])))"

text \<open>The \<^verbatim>\<open>try\<close> block of one attempt.  Decorative glyphs of log lines are left out.\<close>

definition try_fetch :: "network \<Rightarrow> nat \<Rightarrow> state \<Rightarrow> (js_error + raw_torrent list) \<times> state" where
  "try_fetch net attempt st =
     (case rpc net ''torrent-get'' (TorrentGetArgs torrent_get_fields) 0 st of
        (Inl err, st1) \<Rightarrow> (Inl err, st1)
      | (Inr response, st1) \<Rightarrow>
          (case read_torrents response of
             Inl err \<Rightarrow> (Inl err, st1)
           | Inr ts \<Rightarrow>
               (Inr ts,
                log_write
                  (if attempt > 1
                   then LogInfo (''Connected to Transmission (attempt '' @ showNat attempt @
                                 ''): '' @ showNat (length ts) @ '' torrents'')
                   else LogInfo (''Fetched '' @ showNat (length ts) @ '' torrent(s)'')) st1)))"

text \<open>The \<^verbatim>\<open>catch\<close> block of one attempt: it rethrows, or the loop goes on.\<close>

datatype loop_control = Rethrow | NextAttempt

definition after_classification :: "nat \<Rightarrow> state \<Rightarrow> loop_control \<times> state" where
  "after_classification attempt st =
     (if attempt \<ge> 30 then (Rethrow, st) else (NextAttempt, sleep 1000 st))"

definition catch_fetch :: "nat \<Rightarrow> js_error \<Rightarrow> state \<Rightarrow> loop_control \<times> state" where
  "catch_fetch attempt err st =
     (let message = message_of err
      in if is_connectivity message then
           (if attempt = 1 then
              after_classification attempt
                (log_write (LogInfo (''Connecting to Transmission ('' @ client_url st @ '')...'')) st)
            else if attempt < 30 then (NextAttempt, sleep 1000 st)
            else if attempt = 30 then
              after_classification attempt
                (log_write (LogError ''Connection failed after 30 attempts'') st)
            else after_classification attempt st)
         else after_classification attempt st)"

function getTorrents_loop ::
  "network \<Rightarrow> nat \<Rightarrow> state \<Rightarrow> (js_error + raw_torrent list) \<times> state" where
  "getTorrents_loop net attempt st =
     (if attempt \<le> 30 then
        (case try_fetch net attempt st of
           (Inr ts, st1) \<Rightarrow> (Inr ts, st1)
         | (Inl err, st1) \<Rightarrow>
             (case catch_fetch attempt err st1 of
                (Rethrow, st2) \<Rightarrow> (Inl err, st2)
              | (NextAttempt, st2) \<Rightarrow> getTorrents_loop net (attempt + 1) st2))
      else (Inl (Error ''Failed to connect to Transmission after 30 attempts''), st))"
  by pat_completeness auto
termination
  by (relation "measure (\<lambda>(net, attempt, st). 31 - attempt)") auto

declare getTorrents_loop.simps [simp del]

text \<open>Entering \<^verbatim>\<open>getTorrents\<close> is recorded; the loop starts at attempt 1.\<close>

definition entered :: "state \<Rightarrow> state" where
  "entered st = st\<lparr>calls := calls st @ [GetTorrents]\<rparr>"

definition getTorrents :: "network \<Rightarrow> state \<Rightarrow> (js_error + raw_torrent list) \<times> state" where
  "getTorrents net st = getTorrents_loop net 1 (entered st)"

definition removeTorrents ::
  "network \<Rightarrow> number list \<Rightarrow> bool \<Rightarrow> state \<Rightarrow> (js_error + unit) \<times> state" where
  "removeTorrents net ids deleteLocalData st =
     (case rpc net ''torrent-remove'' (TorrentRemoveArgs ids deleteLocalData) 0
             (st\<lparr>calls := calls st @ [RemoveTorrents ids deleteLocalData]\<rparr>) of
        (Inl err, st1) \<Rightarrow> (Inl err, st1)
      | (Inr response, st1) \<Rightarrow> (Inr (), st1))"

section \<open>Run orchestration\<close>

definition performRemoval ::
  "config \<Rightarrow> network \<Rightarrow> number list \<Rightarrow> state \<Rightarrow> (js_error + unit) \<times> state" where
  "performRemoval cfg net ids st =
     (if dryRun cfg then
        (Inr (),
         log_write (LogWarn (''DRY_RUN enabled - skipping removal of '' @ showNat (length ids) @
                             '' torrent(s)'')) st)
      else
        (case removeTorrents net ids True st of
           (Inl err, st1) \<Rightarrow> (Inl err, st1)
         | (Inr u, st1) \<Rightarrow>
             (Inr (), log_write (LogInfo (''Torrents removed: '' @ showNat (length ids))) st1)))"

text \<open>
  \<^verbatim>\<open>displayTorrentsSummary\<close> prints nothing for an empty list and a table otherwise; the
  layout of the table is not modelled.
\<close>

definition displayTorrentsSummary :: "torrent list \<Rightarrow> state \<Rightarrow> state" where
  "displayTorrentsSummary ts st = (if length ts = 0 then st else log_write (LogTable ts) st)"

definition separator :: string where
  "separator = replicate 79 (CHR ''-'')"

definition reason_upper :: "RemovalReason \<Rightarrow> string" where
  "reason_upper r = (case r of Ratio \<Rightarrow> ''RATIO'' | Ttl \<Rightarrow> ''TTL'' | Dead \<Rightarrow> ''DEAD'')"

text \<open>
  \<^verbatim>\<open>torrents.map((t) => this.hydrate(t))\<close>: the clock is read once for each torrent;
  \<open>clock i\<close> is the reading for the torrent at index \<open>i\<close>.
\<close>

definition hydrateAll :: "(nat \<Rightarrow> real) \<Rightarrow> raw_torrent list \<Rightarrow> torrent list" where
  "hydrateAll clock raws = map (\<lambda>(i, r). hydrate (clock i) r) (zip [0..<length raws] raws)"

definition candidates_of :: "config \<Rightarrow> torrent list \<Rightarrow> RemovalCandidate list" where
  "candidates_of cfg eligible = concat (map (evaluate cfg) eligible)"

definition log_candidates :: "RemovalCandidate list \<Rightarrow> state \<Rightarrow> state" where
  "log_candidates cs st =
     foldl (\<lambda>s c. log_write (LogInfo (''['' @ reason_upper (reason c) @ ''] '' @
                                        name (torrent c))) s) st cs"

definition announce_fetch :: "config \<Rightarrow> state \<Rightarrow> state" where
  "announce_fetch cfg st =
     log_write (LogInfo (''Attempting to fetch torrents from '' @ transmissionUrl cfg @ ''...'')) st"

definition run ::
  "config \<Rightarrow> platform \<Rightarrow> (nat \<Rightarrow> real) \<Rightarrow> network \<Rightarrow> state \<Rightarrow> (js_error + unit) \<times> state" where
  "run cfg pf clock net st =
     (case getTorrents net (announce_fetch cfg st) of
        (Inl err, st1) \<Rightarrow>
          (Inl err, log_write (LogError (''Failed to connect: '' @ message_of err)) st1)
      | (Inr raws, st1) \<Rightarrow>
        (let st2 = log_write (LogInfo (''Connected to Transmission: '' @
                                       showNat (length raws) @ '' torrents'')) st1;
             hydrated = hydrateAll clock raws;
             st3 = (if isFirstRun st2
                    then (log_write (LogInfo separator)
                            (displayTorrentsSummary hydrated st2))\<lparr>isFirstRun := False\<rparr>
                    else st2)
         in case select_eligible cfg pf hydrated of
              Inl err \<Rightarrow> (Inl err, st3)
            | Inr (byLabel, eligible) \<Rightarrow>
                (let st4 = log_write
                             (LogInfo (''Filtering: '' @ showNat (length raws) @
                                       '' total -> '' @ showNat (length byLabel) @
                                       '' by label -> '' @ showNat (length eligible) @
                                       '' eligible'')) st3;
                     candidates = candidates_of cfg eligible
                 in if length candidates = 0
                    then (Inr (), log_write (LogInfo ''No torrents to remove'') st4)
                    else
                      (let st5 = log_write (LogInfo separator) st4;
                           st6 = log_write
                                   (LogInfo (''Found '' @ showNat (length candidates) @
                                             '' candidate(s) for removal:'')) st5;
                           st7 = log_candidates candidates st6
                       in performRemoval cfg net
                            (map (\<lambda>c. torrent_id (torrent c)) candidates) st7))))"

section \<open>Auxiliary definitions\<close>

text \<open>
  The eligibility rule in the words of the specification: the lower-cased label is in the
  allow-list, and no announce-URL hostname contains an excluded-tracker token.
\<close>

definition spec_excluded_by_tracker :: "config \<Rightarrow> platform \<Rightarrow> torrent \<Rightarrow> bool" where
  "spec_excluded_by_tracker cfg pf t =
     (\<exists>url \<in> set (trackerUrls t).
        case hostname pf url of
          None \<Rightarrow> False
        | Some h \<Rightarrow> \<exists>token \<in> set (excludedTrackers cfg). str_includes (toLowerCase pf h) token)"

definition spec_eligible :: "config \<Rightarrow> platform \<Rightarrow> torrent \<Rightarrow> bool" where
  "spec_eligible cfg pf t =
     (toLowerCase pf (label t) \<in> set (allowedLabels cfg) \<and> \<not> spec_excluded_by_tracker cfg pf t)"

text \<open>What a call leaves untouched: every part of the state but the token and the requests.\<close>

definition same_frame :: "state \<Rightarrow> state \<Rightarrow> bool" where
  "same_frame st st' =
     (client_url st' = client_url st \<and> client_auth st' = client_auth st \<and>
      isFirstRun st' = isFirstRun st \<and> slept st' = slept st \<and>
      calls st' = calls st \<and> logged st' = logged st)"

text \<open>The request of every fetch attempt, and the state after failed attempts.\<close>

definition torrent_get_request :: "state \<Rightarrow> request" where
  "torrent_get_request st = build_request st ''torrent-get'' (TorrentGetArgs torrent_get_fields)"

definition connecting_notice :: "state \<Rightarrow> log_line" where
  "connecting_notice st = LogInfo (''Connecting to Transmission ('' @ client_url st @ '')...'')"

text \<open>
  The state once \<open>j\<close> attempts, the first of them attempt \<open>k\<close>, have each been rejected
  with a connectivity error and the loop is about to make the next attempt.
\<close>

definition failed_state :: "nat \<Rightarrow> nat \<Rightarrow> state \<Rightarrow> state" where
  "failed_state k j st =
     st\<lparr> sent := sent st @ replicate j (torrent_get_request st),
         slept := slept st @ replicate j 1000,
         logged := logged st @ (if k = 1 \<and> 0 < j then [connecting_notice st] else []) \<rparr>"

section \<open>Example inputs\<close>

text \<open>
  A fragment of the platform's URL parser, for absolute URLs of the shape
  \<^verbatim>\<open>scheme://host[:port][/path]\<close>: a text that does not start with a scheme and a colon
  is rejected, as the parser rejects it when no base URL is given.
\<close>

definition is_alpha :: "char \<Rightarrow> bool" where
  "is_alpha c = (let n = (of_char c :: nat) in (65 \<le> n \<and> n \<le> 90) \<or> (97 \<le> n \<and> n \<le> 122))"

definition is_scheme_char :: "char \<Rightarrow> bool" where
  "is_scheme_char c =
     (let n = (of_char c :: nat)
      in is_alpha c \<or> (48 \<le> n \<and> n \<le> 57) \<or> c = CHR ''+'' \<or> c = CHR ''-'' \<or> c = CHR ''.'')"

definition urlHostname :: url_parser where
  "urlHostname url =
     (let scheme = takeWhile is_scheme_char url;
          rest = dropWhile is_scheme_char url
      in if scheme = [] \<or> \<not> is_alpha (hd scheme) \<or> take 1 rest \<noteq> '':'' then None
         else if take 2 (drop 1 rest) = ''//''
         then Some (takeWhile (\<lambda>c. c \<notin> set ''/:?#'') (drop 3 rest))
         else Some [])"

text \<open>
  \<^verbatim>\<open>toLowerCase\<close> as it acts on ASCII text, which is all the examples contain, and the
  platform of the examples.
\<close>

definition lower_char :: "char \<Rightarrow> char" where
  "lower_char c =
     (let n = (of_char c :: nat) in if 65 \<le> n \<and> n \<le> 90 then char_of (n + 32) else c)"

definition ascii_toLowerCase :: "string \<Rightarrow> string" where
  "ascii_toLowerCase s = map lower_char s"

definition example_platform :: platform where
  "example_platform = \<lparr> toLowerCase = ascii_toLowerCase, hostname = urlHostname \<rparr>"

definition example_config :: config where
  "example_config =
     \<lparr> transmissionUrl = ''http://localhost:9091/transmission/rpc'', transmissionAuth = None,
       allowedLabels = [''radarr'', ''sonarr''], excludedTrackers = [''excluded''],
       maxRatio = Num 2, deadRetentionHours = Num 12, maxAgeHours = Num 120,
       logLevel = ''info'', dryRun = False, schedule = None \<rparr>"

definition example_torrent :: torrent where
  "example_torrent =
     \<lparr> torrent_id = Num 7, name = ''film'', percentDone = Num 40, uploadRatio = Num 2,
       ageHours = Num 121, label = ''Radarr'', downloadDir = ''/data/radarr'',
       trackerUrls = [''http://tracker.example.org:80/announce''],
       error = Num 0, errorString = [] \<rparr>"

definition example_wire_torrent :: wire_torrent where
  "example_wire_torrent =
     \<lparr> w_id = Num 7, w_name = ''film'', w_percentDone = Val (Num (2/5)),
       w_uploadRatio = Val (Num (- 1)), w_addedDate = Val (Num 1700000000),
       w_downloadDir = Val ''/data/radarr'', w_labels = Absent, w_error = Null,
       w_errorString = Absent,
       w_trackers = Val [\<lparr> w_announce = Absent, w_tracker_id = Val (Num 0),
                            w_scrape = Absent, w_tier = Val (Num 0) \<rparr>] \<rparr>"

definition example_other :: torrent where
  "example_other = example_torrent\<lparr>torrent_id := Num 8, label := ''manual''\<rparr>"

definition example_private :: torrent where
  "example_private =
     example_torrent\<lparr>torrent_id := Num 9, label := ''sonarr'',
       trackerUrls := [''udp://Tracker.Excluded.org:6969/announce'']\<rparr>"

definition example_unparsable :: torrent where
  "example_unparsable = example_torrent\<lparr>torrent_id := Num 10, trackerUrls := ['''']\<rparr>"

definition example_masked :: torrent where
  "example_masked =
     example_torrent\<lparr>torrent_id := Num 11,
       trackerUrls := [''http://tracker.excluded.org/announce'', '''']\<rparr>"

definition example_late_unparsable :: torrent where
  "example_late_unparsable =
     example_torrent\<lparr>torrent_id := Num 12,
       trackerUrls := [''http://tracker.example.org:80/announce'', '''']\<rparr>"

definition example_second_excluded :: torrent where
  "example_second_excluded =
     example_torrent\<lparr>torrent_id := Num 13,
       trackerUrls := [''http://tracker.example.org:80/announce'',
                       ''udp://Tracker.Excluded.org:6969/announce'', '''']\<rparr>"

definition example_state :: state where
  "example_state =
     \<lparr> client_url = ''http://localhost:9091/transmission/rpc'', client_auth = None,
       sessionId = None, isFirstRun = True, sent = [], slept = [], calls = [], logged = [] \<rparr>"

definition conflict_response :: response where
  "conflict_response =
     \<lparr> status = 409, statusText = ''Conflict'', new_session = Some ''token-1'',
       body = Unreadable ''Unexpected token < in JSON at position 0'' \<rparr>"

definition success_response :: response where
  "success_response =
     \<lparr> status = 200, statusText = ''OK'', new_session = Some ''token-1'',
       body = Json ''success'' (Val \<lparr> torrents = Val [example_wire_torrent] \<rparr>) \<rparr>"

text \<open>A daemon that answers 409 with a fresh token until the request carries that token.\<close>

definition net_negotiating :: network where
  "net_negotiating n req =
     (if session_header req = Some ''token-1'' then Responded success_response
      else Responded conflict_response)"

text \<open>
  A client that holds a token from an earlier call, and a daemon that accepts every request
  and sends no session header.
\<close>

definition negotiated_state :: state where
  "negotiated_state = example_state\<lparr>sessionId := Some ''token-0''\<rparr>"

definition plain_response :: response where
  "plain_response =
     \<lparr> status = 200, statusText = ''OK'', new_session = None,
       body = Json ''success'' (Val \<lparr> torrents = Val [example_wire_torrent] \<rparr>) \<rparr>"

definition net_plain :: network where
  "net_plain n req = Responded plain_response"

text \<open>A daemon that answers every request with 409.\<close>

definition net_conflict :: network where
  "net_conflict n req = Responded conflict_response"

text \<open>A daemon that is unreachable for the first 29 requests, and one that never answers.\<close>

definition net_late :: network where
  "net_late n req = (if n < 29 then Rejected ''fetch failed'' else Responded success_response)"

definition net_down :: network where
  "net_down n req = Rejected ''fetch failed''"

text \<open>A daemon that rejects the credentials of every request.\<close>

definition unauthorized_response :: response where
  "unauthorized_response =
     \<lparr> status = 401, statusText = ''Unauthorized'', new_session = None,
       body = Unreadable ''Unexpected token < in JSON at position 0'' \<rparr>"

definition net_unauthorized :: network where
  "net_unauthorized n req = Responded unauthorized_response"

text \<open>
  A configuration without tracker exclusions, its dry-run variant, and two clocks: one hour
  and thirteen hours after the example torrent was added.
\<close>

definition quiet_config :: config where
  "quiet_config = example_config\<lparr>excludedTrackers := []\<rparr>"

definition dry_config :: config where
  "dry_config = quiet_config\<lparr>dryRun := True\<rparr>"

definition clock_early :: "nat \<Rightarrow> real" where
  "clock_early i = 1700003600000"

definition clock_late :: "nat \<Rightarrow> real" where
  "clock_late i = 1700046800000"

section \<open>Properties of the rule engine\<close>

lemma checkRatioRule_cases:
  "checkRatioRule cfg t = None \<or> checkRatioRule cfg t = Some \<lparr> torrent = t, reason = Ratio \<rparr>"
  by (simp add: checkRatioRule_def)

lemma checkDeadRule_cases:
  "checkDeadRule cfg t = None \<or> checkDeadRule cfg t = Some \<lparr> torrent = t, reason = Dead \<rparr>"
  by (simp add: checkDeadRule_def Let_def)

lemma checkTtlRule_cases:
  "checkTtlRule cfg t = None \<or> checkTtlRule cfg t = Some \<lparr> torrent = t, reason = Ttl \<rparr>"
  by (simp add: checkTtlRule_def)

lemma evaluate_cases:
  "evaluate cfg t =
     (if checkRatioRule cfg t \<noteq> None then [\<lparr> torrent = t, reason = Ratio \<rparr>]
      else if checkDeadRule cfg t \<noteq> None then [\<lparr> torrent = t, reason = Dead \<rparr>]
      else if checkTtlRule cfg t \<noteq> None then [\<lparr> torrent = t, reason = Ttl \<rparr>]
      else [])"
  using checkRatioRule_cases [of cfg t] checkDeadRule_cases [of cfg t] checkTtlRule_cases [of cfg t]
  by (auto simp: evaluate_def orElse_def)

lemma evaluate_torrent: "c \<in> set (evaluate cfg t) \<Longrightarrow> torrent c = t"
  by (auto simp: evaluate_cases split: if_splits)

lemma evaluate_length: "length (evaluate cfg t) \<le> 1"
  by (simp add: evaluate_cases)

lemma candidates_count:
  "length (filter (\<lambda>c. torrent c = t) (candidates_of cfg es)) \<le> length (filter (\<lambda>x. x = t) es)"
proof (induction es)
  case Nil
  then show ?case by (simp add: candidates_of_def)
next
  case (Cons e es)
  have "length (filter (\<lambda>c. torrent c = t) (evaluate cfg e)) \<le> (if e = t then 1 else 0)"
    by (simp add: evaluate_cases)
  with Cons show ?case by (auto simp: candidates_of_def)
qed

text \<open>
  C1.  \<^verbatim>\<open>evaluate\<close> returns at most one candidate, and it is for the torrent evaluated.
  When the ratio rule matches, the reason is \<open>Ratio\<close> whatever the dead-retention and
  maximum-age thresholds are, so the later rules have no influence; when the ratio rule does
  not match and the dead rule does, the reason is \<open>Dead\<close> whatever the maximum age is;
  when only the TTL rule matches, the reason is \<open>Ttl\<close>; when none matches there is no
  candidate.  In the candidate list of a run a torrent occurs at most as often as it occurs
  in the eligible list.
\<close>

theorem evaluate_first_match_wins:
  "length (evaluate cfg t) \<le> 1 \<and>
   (\<forall>c \<in> set (evaluate cfg t). torrent c = t) \<and>
   (checkRatioRule cfg t \<noteq> None \<longrightarrow>
      (\<forall>cfg'. maxRatio cfg' = maxRatio cfg \<longrightarrow> map reason (evaluate cfg' t) = [Ratio])) \<and>
   (checkRatioRule cfg t = None \<and> checkDeadRule cfg t \<noteq> None \<longrightarrow>
      (\<forall>cfg'. maxRatio cfg' = maxRatio cfg \<and> deadRetentionHours cfg' = deadRetentionHours cfg \<longrightarrow>
         map reason (evaluate cfg' t) = [Dead])) \<and>
   (checkRatioRule cfg t = None \<and> checkDeadRule cfg t = None \<and> checkTtlRule cfg t \<noteq> None \<longrightarrow>
      map reason (evaluate cfg t) = [Ttl]) \<and>
   (checkRatioRule cfg t = None \<and> checkDeadRule cfg t = None \<and> checkTtlRule cfg t = None \<longrightarrow>
      evaluate cfg t = []) \<and>
   length (filter (\<lambda>c. torrent c = t) (candidates_of cfg es)) \<le> length (filter (\<lambda>x. x = t) es)"
proof -
  have ratio: "checkRatioRule cfg' t = checkRatioRule cfg t" if "maxRatio cfg' = maxRatio cfg"
    for cfg' using that by (simp add: checkRatioRule_def)
  have dead: "checkDeadRule cfg' t = checkDeadRule cfg t"
    if "deadRetentionHours cfg' = deadRetentionHours cfg"
    for cfg' using that by (simp add: checkDeadRule_def)
  have 1: "length (evaluate cfg t) \<le> 1" by (rule evaluate_length)
  have 2: "\<forall>c \<in> set (evaluate cfg t). torrent c = t" using evaluate_torrent by blast
  have 3: "checkRatioRule cfg t \<noteq> None \<longrightarrow>
      (\<forall>cfg'. maxRatio cfg' = maxRatio cfg \<longrightarrow> map reason (evaluate cfg' t) = [Ratio])"
  proof (intro impI allI)
    fix cfg' :: config assume a: "checkRatioRule cfg t \<noteq> None" and b: "maxRatio cfg' = maxRatio cfg"
    from ratio [OF b] a have "checkRatioRule cfg' t \<noteq> None" by simp
    then show "map reason (evaluate cfg' t) = [Ratio]" by (simp add: evaluate_cases)
  qed
  have 4: "checkRatioRule cfg t = None \<and> checkDeadRule cfg t \<noteq> None \<longrightarrow>
      (\<forall>cfg'. maxRatio cfg' = maxRatio cfg \<and> deadRetentionHours cfg' = deadRetentionHours cfg \<longrightarrow>
         map reason (evaluate cfg' t) = [Dead])"
  proof (intro impI allI)
    fix cfg' :: config
    assume a: "checkRatioRule cfg t = None \<and> checkDeadRule cfg t \<noteq> None"
      and b: "maxRatio cfg' = maxRatio cfg \<and> deadRetentionHours cfg' = deadRetentionHours cfg"
    from b have "checkRatioRule cfg' t = checkRatioRule cfg t" by (intro ratio) simp
    moreover from b have "checkDeadRule cfg' t = checkDeadRule cfg t" by (intro dead) simp
    ultimately have "checkRatioRule cfg' t = None \<and> checkDeadRule cfg' t \<noteq> None"
      using a by simp
    then show "map reason (evaluate cfg' t) = [Dead]" by (simp add: evaluate_cases)
  qed
  have 5: "checkRatioRule cfg t = None \<and> checkDeadRule cfg t = None \<and> checkTtlRule cfg t \<noteq> None \<longrightarrow>
      map reason (evaluate cfg t) = [Ttl]"
    by (simp add: evaluate_cases)
  have 6: "checkRatioRule cfg t = None \<and> checkDeadRule cfg t = None \<and> checkTtlRule cfg t = None \<longrightarrow>
      evaluate cfg t = []"
    by (simp add: evaluate_cases)
  from 1 2 3 4 5 6 candidates_count [of t cfg es] show ?thesis by (intro conjI)
qed

theorem evaluate_first_match_wins_witness:
  "checkRatioRule example_config example_torrent \<noteq> None \<and>
   checkDeadRule example_config example_torrent \<noteq> None \<and>
   checkTtlRule example_config example_torrent \<noteq> None \<and>
   map reason (evaluate example_config example_torrent) = [Ratio] \<and>
   checkRatioRule example_config (example_torrent\<lparr>uploadRatio := Num (1/2)\<rparr>) = None \<and>
   checkDeadRule example_config (example_torrent\<lparr>uploadRatio := Num (1/2)\<rparr>) \<noteq> None \<and>
   checkTtlRule example_config (example_torrent\<lparr>uploadRatio := Num (1/2)\<rparr>) \<noteq> None \<and>
   map reason (evaluate example_config (example_torrent\<lparr>uploadRatio := Num (1/2)\<rparr>)) = [Dead] \<and>
   checkRatioRule example_config (example_torrent\<lparr>uploadRatio := Num (1/2), percentDone := Num 100\<rparr>) = None \<and>
   checkDeadRule example_config (example_torrent\<lparr>uploadRatio := Num (1/2), percentDone := Num 100\<rparr>) = None \<and>
   checkTtlRule example_config (example_torrent\<lparr>uploadRatio := Num (1/2), percentDone := Num 100\<rparr>) \<noteq> None \<and>
   map reason (evaluate example_config
                 (example_torrent\<lparr>uploadRatio := Num (1/2), percentDone := Num 100\<rparr>)) = [Ttl]"
proof -
  let ?t2 = "example_torrent\<lparr>uploadRatio := Num (1/2)\<rparr>"
  let ?t3 = "example_torrent\<lparr>uploadRatio := Num (1/2), percentDone := Num 100\<rparr>"
  have r: "checkRatioRule example_config example_torrent \<noteq> None"
    by (simp add: checkRatioRule_def example_config_def example_torrent_def num_seq_def num_lt_def)
  have d: "checkDeadRule example_config example_torrent \<noteq> None"
    by (simp add: checkDeadRule_def example_config_def example_torrent_def num_ge_def num_lt_def)
  have t: "checkTtlRule example_config example_torrent \<noteq> None"
    by (simp add: checkTtlRule_def example_config_def example_torrent_def num_lt_def)
  have r2: "checkRatioRule example_config ?t2 = None"
    by (simp add: checkRatioRule_def example_config_def example_torrent_def num_seq_def num_lt_def)
  have d2: "checkDeadRule example_config ?t2 \<noteq> None"
    by (simp add: checkDeadRule_def example_config_def example_torrent_def num_ge_def num_lt_def)
  have t2: "checkTtlRule example_config ?t2 \<noteq> None"
    by (simp add: checkTtlRule_def example_config_def example_torrent_def num_lt_def)
  have r3: "checkRatioRule example_config ?t3 = None"
    by (simp add: checkRatioRule_def example_config_def example_torrent_def num_seq_def num_lt_def)
  have d3: "checkDeadRule example_config ?t3 = None"
    by (simp add: checkDeadRule_def example_config_def example_torrent_def num_ge_def num_lt_def)
  have t3: "checkTtlRule example_config ?t3 \<noteq> None"
    by (simp add: checkTtlRule_def example_config_def example_torrent_def num_lt_def)
  have e1: "map reason (evaluate example_config example_torrent) = [Ratio]"
    using evaluate_first_match_wins [of example_config example_torrent "[]"] r by simp
  have e2: "map reason (evaluate example_config ?t2) = [Dead]"
    using evaluate_first_match_wins [of example_config ?t2 "[]"] r2 d2 by simp
  have e3: "map reason (evaluate example_config ?t3) = [Ttl]"
    using evaluate_first_match_wins [of example_config ?t3 "[]"] r3 d3 t3 by simp
  from r d t r2 d2 t2 r3 d3 t3 e1 e2 e3 show ?thesis by (intro conjI)
qed

text \<open>
  C2 (as amended).  When neither the upload ratio nor the threshold is NaN, the ratio rule
  matches exactly when \<^verbatim>\<open>uploadRatio != -1\<close> and \<^verbatim>\<open>uploadRatio >= maxRatio\<close>.  For every
  threshold, NaN included, a torrent with upload ratio \<open>-1\<close> does not match; a torrent whose
  upload ratio equals the threshold, and is neither NaN nor \<open>-1\<close>, matches.
\<close>

theorem checkRatioRule_matches_iff:
  "(uploadRatio t \<noteq> NaN \<and> maxRatio cfg \<noteq> NaN \<longrightarrow>
      (checkRatioRule cfg t = Some \<lparr> torrent = t, reason = Ratio \<rparr>) =
      (uploadRatio t \<noteq> Num (- 1) \<and> num_ge (uploadRatio t) (maxRatio cfg))) \<and>
   (checkRatioRule cfg t \<noteq> Some \<lparr> torrent = t, reason = Ratio \<rparr> \<longrightarrow> checkRatioRule cfg t = None) \<and>
   (uploadRatio t = Num (- 1) \<longrightarrow> checkRatioRule cfg t = None) \<and>
   (uploadRatio t = maxRatio cfg \<and> uploadRatio t \<noteq> NaN \<and> uploadRatio t \<noteq> Num (- 1) \<longrightarrow>
      checkRatioRule cfg t = Some \<lparr> torrent = t, reason = Ratio \<rparr>)"
  by (cases "uploadRatio t"; cases "maxRatio cfg")
     (auto simp: checkRatioRule_def num_seq_def num_lt_def num_ge_def)

theorem checkRatioRule_matches_iff_witness:
  "uploadRatio example_torrent \<noteq> NaN \<and> maxRatio example_config \<noteq> NaN \<and>
   uploadRatio example_torrent = maxRatio example_config \<and>
   uploadRatio example_torrent \<noteq> Num (- 1) \<and>
   num_ge (uploadRatio example_torrent) (maxRatio example_config) \<and>
   checkRatioRule example_config example_torrent =
     Some \<lparr> torrent = example_torrent, reason = Ratio \<rparr> \<and>
   checkRatioRule example_config (example_torrent\<lparr>uploadRatio := Num (- 1)\<rparr>) = None"
  using checkRatioRule_matches_iff [of example_torrent example_config]
    checkRatioRule_matches_iff [of "example_torrent\<lparr>uploadRatio := Num (- 1)\<rparr>" example_config]
  by (simp add: example_config_def example_torrent_def num_ge_def)

text \<open>
  With the threshold NaN (what \<^verbatim>\<open>loadConfig\<close> computes from a \<^verbatim>\<open>MAX_RATIO\<close> that is not
  numeric) the comparison \<^verbatim>\<open>uploadRatio < maxRatio\<close> is false, so a torrent of ratio 5 matches
  although \<^verbatim>\<open>uploadRatio >= maxRatio\<close> is false.
\<close>

theorem checkRatioRule_NaN_counterexample:
  "checkRatioRule (example_config\<lparr>maxRatio := NaN\<rparr>) (example_torrent\<lparr>uploadRatio := Num 5\<rparr>) =
     Some \<lparr> torrent = example_torrent\<lparr>uploadRatio := Num 5\<rparr>, reason = Ratio \<rparr> \<and>
   \<not> (uploadRatio (example_torrent\<lparr>uploadRatio := Num 5\<rparr>) \<noteq> Num (- 1) \<and>
      num_ge (uploadRatio (example_torrent\<lparr>uploadRatio := Num 5\<rparr>))
             (maxRatio (example_config\<lparr>maxRatio := NaN\<rparr>)))"
  by (simp add: checkRatioRule_def num_seq_def num_lt_def num_ge_def)

section \<open>Properties of normalisation\<close>

lemma hydrate_uploadRatio:
  "uploadRatio (hydrate now raw) = num_or (raw_uploadRatio raw) (Num 0)"
  by (simp add: hydrate_def Let_def)

lemma normalize_uploadRatio:
  "raw_uploadRatio (normalizeTorrent w) = field_num_or (w_uploadRatio w) (Num 0)"
  by (simp add: normalizeTorrent_def)

text \<open>
  C9.  The \<^verbatim>\<open>|| 0\<close> defaulting of the client and of \<^verbatim>\<open>hydrate\<close> keeps the sentinel: an
  upload ratio sent as \<open>-1\<close> is \<open>-1\<close> in the hydrated torrent, which the ratio rule then
  rejects for every configuration; an upload ratio that is missing, null or \<open>0\<close> is \<open>0\<close> in
  the hydrated torrent.
\<close>

theorem defaulting_preserves_sentinel:
  "(w_uploadRatio w = Val (Num (- 1)) \<longrightarrow>
      uploadRatio (hydrate now (normalizeTorrent w)) = Num (- 1) \<and>
      checkRatioRule cfg (hydrate now (normalizeTorrent w)) = None) \<and>
   (w_uploadRatio w = Absent \<or> w_uploadRatio w = Null \<or> w_uploadRatio w = Val (Num 0) \<longrightarrow>
      uploadRatio (hydrate now (normalizeTorrent w)) = Num 0)"
  by (auto simp: hydrate_uploadRatio normalize_uploadRatio field_num_or_def num_or_def
        truthy_num_def checkRatioRule_def num_seq_def)

theorem defaulting_preserves_sentinel_witness:
  "w_uploadRatio example_wire_torrent = Val (Num (- 1)) \<and>
   uploadRatio (hydrate 1700003600000 (normalizeTorrent example_wire_torrent)) = Num (- 1) \<and>
   checkRatioRule example_config (hydrate 1700003600000 (normalizeTorrent example_wire_torrent)) = None \<and>
   w_uploadRatio (example_wire_torrent\<lparr>w_uploadRatio := Absent\<rparr>) = Absent \<and>
   uploadRatio (hydrate 1700003600000
      (normalizeTorrent (example_wire_torrent\<lparr>w_uploadRatio := Absent\<rparr>))) = Num 0"
  using defaulting_preserves_sentinel [of example_wire_torrent 1700003600000 example_config]
    defaulting_preserves_sentinel [of "example_wire_torrent\<lparr>w_uploadRatio := Absent\<rparr>"
      1700003600000 example_config]
  by (simp add: example_wire_torrent_def)

section \<open>Properties of the RPC client\<close>

lemma capture_session_frame:
  "same_frame st (capture_session r st) \<and> sent (capture_session r st) = sent st"
  by (simp add: capture_session_def same_frame_def split: option.splits)

lemma rpc_once_frame:
  assumes "rpc_once net m a retryCount st = (step, st')"
  shows "same_frame st st' \<and> sent st' = sent st @ [build_request st m a]"
proof (cases "net (length (sent st)) (build_request st m a)")
  case (Rejected msg)
  with assms show ?thesis by (auto simp: rpc_once_def Let_def same_frame_def)
next
  case (Responded r)
  let ?st1 = "st\<lparr>sent := sent st @ [build_request st m a]\<rparr>"
  from assms Responded have "st' = capture_session r ?st1"
    by (auto simp: rpc_once_def Let_def split: if_splits body.splits)
  with capture_session_frame [of ?st1 r] show ?thesis by (simp add: same_frame_def)
qed

lemma rpc_frame:
  "retryCount \<le> 2 \<Longrightarrow> rpc net m a retryCount st = (res, st') \<Longrightarrow>
   same_frame st st' \<and>
   (\<exists>reqs. sent st' = sent st @ reqs \<and> reqs \<noteq> [] \<and> length reqs \<le> 3 - retryCount \<and>
      (\<forall>r \<in> set reqs. rpc_method r = m \<and> rpc_arguments r = a \<and>
                        authorization r = getAuthHeader (client_auth st)))"
proof (induction net m a retryCount st arbitrary: res st' rule: rpc.induct)
  case (1 net m a retryCount st)
  obtain step st1 where once: "rpc_once net m a retryCount st = (step, st1)"
    by (cases "rpc_once net m a retryCount st")
  from rpc_once_frame [OF once]
  have f1: "same_frame st st1" and s1: "sent st1 = sent st @ [build_request st m a]"
    by auto
  have rq: "rpc_method (build_request st m a) = m \<and>
            rpc_arguments (build_request st m a) = a \<and>
            authorization (build_request st m a) = getAuthHeader (client_auth st)"
    by (simp add: build_request_def)
  show ?case
  proof (cases step)
    case (Return r)
    with once "1.prems" have "st' = st1" by (simp add: rpc.simps)
    then show ?thesis using f1 s1 rq "1.prems" by auto
  next
    case Retransmit
    with once "1.prems" have rec: "rpc net m a (retryCount + 1) st1 = (res, st')"
      by (simp add: rpc.simps)
    have lt: "retryCount < 2"
      using once Retransmit
      by (auto simp: rpc_once_def Let_def split: fetch_outcome.splits if_splits body.splits)
    from lt have "retryCount + 1 \<le> 2" by simp
    from "1.IH" [OF once [symmetric] Retransmit this rec]
    obtain reqs where f2: "same_frame st1 st'" and s2: "sent st' = sent st1 @ reqs"
      and n: "reqs \<noteq> []" "length reqs \<le> 3 - (retryCount + 1)"
      and a: "\<forall>r \<in> set reqs. rpc_method r = m \<and> rpc_arguments r = a \<and>
                        authorization r = getAuthHeader (client_auth st1)"
      by auto
    from f1 f2 have "same_frame st st'" by (simp add: same_frame_def)
    moreover have "sent st' = sent st @ (build_request st m a # reqs)"
      using s1 s2 by simp
    moreover have "length (build_request st m a # reqs) \<le> 3 - retryCount"
      using n lt by simp
    moreover have "\<forall>r \<in> set (build_request st m a # reqs).
       rpc_method r = m \<and> rpc_arguments r = a \<and>
       authorization r = getAuthHeader (client_auth st)"
      using a rq f1 by (simp add: same_frame_def)
    ultimately show ?thesis by blast
  qed
qed

lemma rpc_Rejected:
  "net (length (sent st)) (build_request st m a) = Rejected msg \<Longrightarrow>
   rpc net m a retryCount st =
     (Inl (wrap_rpc_error msg), st\<lparr>sent := sent st @ [build_request st m a]\<rparr>)"
  by (simp add: rpc.simps [of net m a retryCount st] rpc_once_def)

lemma rpc_conflict_retry:
  "net (length (sent st)) (build_request st m a) = Responded r \<Longrightarrow> status r = 409 \<Longrightarrow>
   retryCount < 2 \<Longrightarrow>
   rpc net m a retryCount st =
     rpc net m a (retryCount + 1)
       (capture_session r (st\<lparr>sent := sent st @ [build_request st m a]\<rparr>))"
  by (simp add: rpc.simps [of net m a retryCount st] rpc_once_def Let_def)

lemma rpc_conflict_fatal:
  "net (length (sent st)) (build_request st m a) = Responded r \<Longrightarrow> status r = 409 \<Longrightarrow>
   2 \<le> retryCount \<Longrightarrow>
   rpc net m a retryCount st =
     (Inl negotiation_failed,
      capture_session r (st\<lparr>sent := sent st @ [build_request st m a]\<rparr>))"
  by (simp add: rpc.simps [of net m a retryCount st] rpc_once_def Let_def negotiation_failed_def)

lemma rpc_final:
  "net (length (sent st)) (build_request st m a) = Responded r \<Longrightarrow> status r \<noteq> 409 \<Longrightarrow>
   snd (rpc net m a retryCount st) =
     capture_session r (st\<lparr>sent := sent st @ [build_request st m a]\<rparr>)"
  by (simp add: rpc.simps [of net m a retryCount st] rpc_once_def Let_def split: body.splits)

lemma rpc_success:
  "net (length (sent st)) (build_request st m a) = Responded r \<Longrightarrow> status r \<noteq> 409 \<Longrightarrow>
   ok r \<Longrightarrow> body r = Json ''success'' arguments \<Longrightarrow>
   rpc net m a retryCount st =
     (Inr arguments, capture_session r (st\<lparr>sent := sent st @ [build_request st m a]\<rparr>))"
  by (simp add: rpc.simps [of net m a retryCount st] rpc_once_def Let_def)

lemma capture_session_token:
  "new_session r = Some token \<Longrightarrow> token \<noteq> [] \<Longrightarrow>
   sessionId (capture_session r st) = Some token \<and>
   build_request (capture_session r st) m a = (build_request st m a)\<lparr>session_header := Some token\<rparr>"
  by (simp add: capture_session_def build_request_def)

lemma rpc_always_conflict:
  assumes "\<forall>n req. \<exists>r. net n req = Responded r \<and> status r = 409"
  shows "fst (rpc net m a 0 st) = Inl negotiation_failed \<and>
         length (sent (snd (rpc net m a 0 st))) = length (sent st) + 3"
proof -
  let ?q0 = "build_request st m a"
  from assms obtain r0 where r0: "net (length (sent st)) ?q0 = Responded r0" "status r0 = 409"
    by blast
  let ?s1 = "capture_session r0 (st\<lparr>sent := sent st @ [?q0]\<rparr>)"
  let ?q1 = "build_request ?s1 m a"
  from assms obtain r1 where r1: "net (length (sent ?s1)) ?q1 = Responded r1" "status r1 = 409"
    by blast
  let ?s2 = "capture_session r1 (?s1\<lparr>sent := sent ?s1 @ [?q1]\<rparr>)"
  let ?q2 = "build_request ?s2 m a"
  from assms obtain r2 where r2: "net (length (sent ?s2)) ?q2 = Responded r2" "status r2 = 409"
    by blast
  let ?s3 = "capture_session r2 (?s2\<lparr>sent := sent ?s2 @ [?q2]\<rparr>)"
  have "rpc net m a 0 st = rpc net m a 1 ?s1"
    using rpc_conflict_retry [where net = net and st = st and m = m and a = a and r = r0
        and retryCount = 0] r0 by simp
  also have "\<dots> = rpc net m a 2 ?s2"
    using rpc_conflict_retry [where net = net and st = "?s1" and m = m and a = a and r = r1
        and retryCount = 1] r1 by (simp add: numeral_2_eq_2)
  also have "\<dots> = (Inl negotiation_failed, ?s3)"
    using rpc_conflict_fatal [where net = net and st = "?s2" and m = m and a = a and r = r2
        and retryCount = 2] r2 by (simp add: numeral_2_eq_2)
  finally have e: "rpc net m a 0 st = (Inl negotiation_failed, ?s3)" .
  have "length (sent ?s3) = length (sent st) + 3"
    using capture_session_frame by simp
  with e show ?thesis by simp
qed

lemma negotiation_failed_not_connectivity:
  "\<not> is_connectivity (message_of negotiation_failed)"
  by code_simp

text \<open>
  C4.  When the response to a call has status 409 and fewer than two retransmissions were
  made, the client keeps the token of the response, if it carries one, and makes the same
  call again; the request sent again differs from the first only in its session header,
  which is the new token.  A 409 after two retransmissions makes the call fail with the
  negotiation error, which is not a connectivity error; a daemon that always answers 409
  receives exactly three requests.  A token carried by a response of any status is kept
  as soon as the response is handled, and every request built afterwards sends it; when the
  response ends the call, that is the next call.  All requests of one call carry the same
  method, arguments and authorization, and there are at most three.  A token is a header
  value that is not the empty string: a response that carries no session header, or an empty
  one, leaves the stored token as it was, whatever its status, and so does a request that
  gets no response.
\<close>

theorem rpc_session_negotiation:
  "(\<forall>r. net (length (sent st)) (build_request st m a) = Responded r \<and> status r = 409 \<and>
        retryCount < 2 \<longrightarrow>
        rpc net m a retryCount st =
          rpc net m a (retryCount + 1)
            (capture_session r (st\<lparr>sent := sent st @ [build_request st m a]\<rparr>)) \<and>
        (\<forall>token. new_session r = Some token \<and> token \<noteq> [] \<longrightarrow>
           build_request (capture_session r (st\<lparr>sent := sent st @ [build_request st m a]\<rparr>)) m a =
             (build_request st m a)\<lparr>session_header := Some token\<rparr>) \<and>
        (new_session r = None \<longrightarrow>
           build_request (capture_session r (st\<lparr>sent := sent st @ [build_request st m a]\<rparr>)) m a =
             build_request st m a)) \<and>
   (\<forall>r. net (length (sent st)) (build_request st m a) = Responded r \<and> status r = 409 \<and>
        2 \<le> retryCount \<longrightarrow>
        rpc net m a retryCount st =
          (Inl negotiation_failed,
           capture_session r (st\<lparr>sent := sent st @ [build_request st m a]\<rparr>))) \<and>
   \<not> is_connectivity (message_of negotiation_failed) \<and>
   ((\<forall>n req. \<exists>r. net n req = Responded r \<and> status r = 409) \<longrightarrow>
      fst (rpc net m a 0 st) = Inl negotiation_failed \<and>
      length (sent (snd (rpc net m a 0 st))) = length (sent st) + 3) \<and>
   (\<forall>r token. net (length (sent st)) (build_request st m a) = Responded r \<and>
        new_session r = Some token \<and> token \<noteq> [] \<and> status r \<noteq> 409 \<longrightarrow>
        sessionId (snd (rpc net m a retryCount st)) = Some token \<and>
        (\<forall>m' a'. session_header (build_request (snd (rpc net m a retryCount st)) m' a') =
                   Some token)) \<and>
   (retryCount \<le> 2 \<longrightarrow>
      (\<exists>reqs. sent (snd (rpc net m a retryCount st)) = sent st @ reqs \<and> reqs \<noteq> [] \<and>
         length reqs \<le> 3 - retryCount \<and>
         (\<forall>q \<in> set reqs. rpc_method q = m \<and> rpc_arguments q = a \<and>
                           authorization q = getAuthHeader (client_auth st)))) \<and>
   (\<forall>r token. net (length (sent st)) (build_request st m a) = Responded r \<and>
        new_session r = Some token \<and> token \<noteq> [] \<longrightarrow>
        sessionId (snd (rpc_once net m a retryCount st)) = Some token \<and>
        (\<forall>m' a'. session_header (build_request (snd (rpc_once net m a retryCount st)) m' a') =
                   Some token)) \<and>
   (\<forall>r. net (length (sent st)) (build_request st m a) = Responded r \<and>
        (new_session r = None \<or> new_session r = Some []) \<longrightarrow>
        sessionId (snd (rpc_once net m a retryCount st)) = sessionId st \<and>
        (status r \<noteq> 409 \<longrightarrow> sessionId (snd (rpc net m a retryCount st)) = sessionId st)) \<and>
   (\<forall>msg. net (length (sent st)) (build_request st m a) = Rejected msg \<longrightarrow>
        sessionId (snd (rpc net m a retryCount st)) = sessionId st)"
proof -
  let ?st1 = "st\<lparr>sent := sent st @ [build_request st m a]\<rparr>"
  have A: "\<forall>r. net (length (sent st)) (build_request st m a) = Responded r \<and> status r = 409 \<and>
        retryCount < 2 \<longrightarrow>
        rpc net m a retryCount st = rpc net m a (retryCount + 1) (capture_session r ?st1) \<and>
        (\<forall>token. new_session r = Some token \<and> token \<noteq> [] \<longrightarrow>
           build_request (capture_session r ?st1) m a =
             (build_request st m a)\<lparr>session_header := Some token\<rparr>) \<and>
        (new_session r = None \<longrightarrow> build_request (capture_session r ?st1) m a = build_request st m a)"
  proof (intro allI impI conjI)
    fix r
    assume h: "net (length (sent st)) (build_request st m a) = Responded r \<and> status r = 409 \<and>
               retryCount < 2"
    then show "rpc net m a retryCount st = rpc net m a (retryCount + 1) (capture_session r ?st1)"
      by (simp add: rpc_conflict_retry)
  next
    fix r :: response and token
    assume "new_session r = Some token \<and> token \<noteq> []"
    then show "build_request (capture_session r ?st1) m a =
                 (build_request st m a)\<lparr>session_header := Some token\<rparr>"
      by (simp add: capture_session_def build_request_def)
  next
    fix r :: response
    assume "new_session r = None"
    then show "build_request (capture_session r ?st1) m a = build_request st m a"
      by (simp add: capture_session_def build_request_def)
  qed
  have B: "\<forall>r. net (length (sent st)) (build_request st m a) = Responded r \<and> status r = 409 \<and>
        2 \<le> retryCount \<longrightarrow>
        rpc net m a retryCount st = (Inl negotiation_failed, capture_session r ?st1)"
    by (simp add: rpc_conflict_fatal)
  have C: "(\<forall>n req. \<exists>r. net n req = Responded r \<and> status r = 409) \<longrightarrow>
      fst (rpc net m a 0 st) = Inl negotiation_failed \<and>
      length (sent (snd (rpc net m a 0 st))) = length (sent st) + 3"
    using rpc_always_conflict [of net m a st] by (intro impI)
  have D: "\<forall>r token. net (length (sent st)) (build_request st m a) = Responded r \<and>
        new_session r = Some token \<and> token \<noteq> [] \<and> status r \<noteq> 409 \<longrightarrow>
        sessionId (snd (rpc net m a retryCount st)) = Some token \<and>
        (\<forall>m' a'. session_header (build_request (snd (rpc net m a retryCount st)) m' a') =
                   Some token)"
  proof (intro allI impI)
    fix r token
    assume h: "net (length (sent st)) (build_request st m a) = Responded r \<and>
        new_session r = Some token \<and> token \<noteq> [] \<and> status r \<noteq> 409"
    then have "snd (rpc net m a retryCount st) = capture_session r ?st1"
      by (simp add: rpc_final)
    with h show "sessionId (snd (rpc net m a retryCount st)) = Some token \<and>
        (\<forall>m' a'. session_header (build_request (snd (rpc net m a retryCount st)) m' a') =
                   Some token)"
      by (simp add: capture_session_def build_request_def)
  qed
  have E: "retryCount \<le> 2 \<longrightarrow>
      (\<exists>reqs. sent (snd (rpc net m a retryCount st)) = sent st @ reqs \<and> reqs \<noteq> [] \<and>
         length reqs \<le> 3 - retryCount \<and>
         (\<forall>q \<in> set reqs. rpc_method q = m \<and> rpc_arguments q = a \<and>
                           authorization q = getAuthHeader (client_auth st)))"
  proof
    assume le: "retryCount \<le> 2"
    obtain res st' where e: "rpc net m a retryCount st = (res, st')"
      by (cases "rpc net m a retryCount st")
    from rpc_frame [OF le e] e
    show "\<exists>reqs. sent (snd (rpc net m a retryCount st)) = sent st @ reqs \<and> reqs \<noteq> [] \<and>
         length reqs \<le> 3 - retryCount \<and>
         (\<forall>q \<in> set reqs. rpc_method q = m \<and> rpc_arguments q = a \<and>
                           authorization q = getAuthHeader (client_auth st))"
      by simp
  qed
  have F: "\<forall>r token. net (length (sent st)) (build_request st m a) = Responded r \<and>
        new_session r = Some token \<and> token \<noteq> [] \<longrightarrow>
        sessionId (snd (rpc_once net m a retryCount st)) = Some token \<and>
        (\<forall>m' a'. session_header (build_request (snd (rpc_once net m a retryCount st)) m' a') =
                   Some token)"
  proof (intro allI impI)
    fix r token
    assume h: "net (length (sent st)) (build_request st m a) = Responded r \<and>
        new_session r = Some token \<and> token \<noteq> []"
    then have "snd (rpc_once net m a retryCount st) = capture_session r ?st1"
      by (simp add: rpc_once_def Let_def split: body.splits)
    with h show "sessionId (snd (rpc_once net m a retryCount st)) = Some token \<and>
        (\<forall>m' a'. session_header (build_request (snd (rpc_once net m a retryCount st)) m' a') =
                   Some token)"
      by (simp add: capture_session_def build_request_def)
  qed
  have G: "\<forall>r. net (length (sent st)) (build_request st m a) = Responded r \<and>
        (new_session r = None \<or> new_session r = Some []) \<longrightarrow>
        sessionId (snd (rpc_once net m a retryCount st)) = sessionId st \<and>
        (status r \<noteq> 409 \<longrightarrow> sessionId (snd (rpc net m a retryCount st)) = sessionId st)"
  proof (intro allI impI conjI)
    fix r
    assume h: "net (length (sent st)) (build_request st m a) = Responded r \<and>
        (new_session r = None \<or> new_session r = Some [])"
    then have k: "sessionId (capture_session r ?st1) = sessionId st"
      by (auto simp: capture_session_def)
    from h have "snd (rpc_once net m a retryCount st) = capture_session r ?st1"
      by (simp add: rpc_once_def Let_def split: body.splits)
    with k show "sessionId (snd (rpc_once net m a retryCount st)) = sessionId st" by simp
    assume "status r \<noteq> 409"
    with h have "snd (rpc net m a retryCount st) = capture_session r ?st1"
      by (simp add: rpc_final)
    with k show "sessionId (snd (rpc net m a retryCount st)) = sessionId st" by simp
  qed
  have H: "\<forall>msg. net (length (sent st)) (build_request st m a) = Rejected msg \<longrightarrow>
        sessionId (snd (rpc net m a retryCount st)) = sessionId st"
    by (simp add: rpc_Rejected)
  from A B negotiation_failed_not_connectivity C D E F G H show ?thesis by (intro conjI)
qed

theorem rpc_session_negotiation_witness:
  "net_negotiating (length (sent example_state))
     (build_request example_state ''torrent-get'' (TorrentGetArgs torrent_get_fields)) =
     Responded conflict_response \<and>
   status conflict_response = 409 \<and> new_session conflict_response = Some ''token-1'' \<and>
   fst (rpc net_negotiating ''torrent-get'' (TorrentGetArgs torrent_get_fields) 0 example_state) =
     Inr (Val \<lparr> torrents = Val [example_wire_torrent] \<rparr>) \<and>
   map session_header
     (sent (snd (rpc net_negotiating ''torrent-get'' (TorrentGetArgs torrent_get_fields) 0
                   example_state))) = [None, Some ''token-1''] \<and>
   session_header
     (build_request
        (snd (rpc net_negotiating ''torrent-get'' (TorrentGetArgs torrent_get_fields) 0
                example_state))
        ''torrent-remove'' (TorrentRemoveArgs [Num 7] True)) = Some ''token-1'' \<and>
   fst (rpc net_conflict ''torrent-get'' (TorrentGetArgs torrent_get_fields) 0 example_state) =
     Inl negotiation_failed \<and>
   length (sent (snd (rpc net_conflict ''torrent-get'' (TorrentGetArgs torrent_get_fields) 0
                        example_state))) = 3 \<and>
   net_plain (length (sent negotiated_state))
     (build_request negotiated_state ''torrent-get'' (TorrentGetArgs torrent_get_fields)) =
     Responded plain_response \<and>
   new_session plain_response = None \<and> status plain_response = 200 \<and>
   sessionId negotiated_state = Some ''token-0'' \<and>
   sessionId (snd (rpc net_plain ''torrent-get'' (TorrentGetArgs torrent_get_fields) 0
                     negotiated_state)) = Some ''token-0'' \<and>
   session_header
     (build_request
        (snd (rpc net_plain ''torrent-get'' (TorrentGetArgs torrent_get_fields) 0
                negotiated_state))
        ''torrent-remove'' (TorrentRemoveArgs [Num 7] True)) = Some ''token-0''"
proof -
  let ?m = "''torrent-get''" and ?a = "TorrentGetArgs torrent_get_fields"
  note inst = rpc_session_negotiation [of net_conflict example_state ?m ?a 0]
  have h: "\<forall>n req. \<exists>r. net_conflict n req = Responded r \<and> status r = 409"
    by (simp add: net_conflict_def conflict_response_def)
  from inst [THEN conjunct2, THEN conjunct2, THEN conjunct2, THEN conjunct1, THEN mp, OF h]
  have c: "fst (rpc net_conflict ?m ?a 0 example_state) = Inl negotiation_failed \<and>
           length (sent (snd (rpc net_conflict ?m ?a 0 example_state))) = 3"
    by (simp add: example_state_def)
  have 1: "net_negotiating (length (sent example_state)) (build_request example_state ?m ?a) =
             Responded conflict_response"
    by (simp add: net_negotiating_def build_request_def example_state_def)
  have 2: "status conflict_response = 409 \<and> new_session conflict_response = Some ''token-1''"
    by (simp add: conflict_response_def)
  have 3: "fst (rpc net_negotiating ?m ?a 0 example_state) =
             Inr (Val \<lparr> torrents = Val [example_wire_torrent] \<rparr>)"
    by code_simp
  have 4: "map session_header (sent (snd (rpc net_negotiating ?m ?a 0 example_state))) =
             [None, Some ''token-1'']"
    by code_simp
  have 5: "session_header (build_request (snd (rpc net_negotiating ?m ?a 0 example_state))
             ''torrent-remove'' (TorrentRemoveArgs [Num 7] True)) = Some ''token-1''"
    by code_simp
  note plain = rpc_session_negotiation [of net_plain negotiated_state ?m ?a 0]
  have 6: "net_plain (length (sent negotiated_state)) (build_request negotiated_state ?m ?a) =
             Responded plain_response"
    by (simp add: net_plain_def)
  have 7: "new_session plain_response = None" "status plain_response = 200"
    by (simp_all add: plain_response_def)
  have 8: "sessionId negotiated_state = Some ''token-0''"
    by (simp add: negotiated_state_def)
  have g: "net_plain (length (sent negotiated_state)) (build_request negotiated_state ?m ?a) =
             Responded plain_response \<and>
           (new_session plain_response = None \<or> new_session plain_response = Some [])"
    using 6 7 by simp
  have n: "status plain_response \<noteq> 409" using 7 by simp
  from plain [THEN conjunct2, THEN conjunct2, THEN conjunct2, THEN conjunct2, THEN conjunct2,
              THEN conjunct2, THEN conjunct2, THEN conjunct1, rule_format, OF g,
              THEN conjunct2, THEN mp, OF n]
  have 9: "sessionId (snd (rpc net_plain ?m ?a 0 negotiated_state)) = Some ''token-0''"
    by (simp only: 8)
  then have 10: "session_header (build_request (snd (rpc net_plain ?m ?a 0 negotiated_state))
             ''torrent-remove'' (TorrentRemoveArgs [Num 7] True)) = Some ''token-0''"
    by (simp add: build_request_def)
  have old: "net_negotiating (length (sent example_state))
     (build_request example_state ''torrent-get'' (TorrentGetArgs torrent_get_fields)) =
     Responded conflict_response \<and>
   status conflict_response = 409 \<and> new_session conflict_response = Some ''token-1'' \<and>
   fst (rpc net_negotiating ''torrent-get'' (TorrentGetArgs torrent_get_fields) 0 example_state) =
     Inr (Val \<lparr> torrents = Val [example_wire_torrent] \<rparr>) \<and>
   map session_header
     (sent (snd (rpc net_negotiating ''torrent-get'' (TorrentGetArgs torrent_get_fields) 0
                   example_state))) = [None, Some ''token-1''] \<and>
   session_header
     (build_request
        (snd (rpc net_negotiating ''torrent-get'' (TorrentGetArgs torrent_get_fields) 0
                example_state))
        ''torrent-remove'' (TorrentRemoveArgs [Num 7] True)) = Some ''token-1'' \<and>
   fst (rpc net_conflict ''torrent-get'' (TorrentGetArgs torrent_get_fields) 0 example_state) =
     Inl negotiation_failed \<and>
   length (sent (snd (rpc net_conflict ''torrent-get'' (TorrentGetArgs torrent_get_fields) 0
                        example_state))) = 3"
    using 1 2 3 4 5 c by (intro conjI) simp_all
  from old 6 7 8 9 10 show ?thesis by (intro conjI) simp_all
qed

section \<open>Properties of eligibility filtering\<close>

lemma hostExcluded_iff:
  "hostExcluded cfg host = (\<exists>token \<in> set (excludedTrackers cfg). str_includes host token)"
  by (simp add: hostExcluded_def list_ex_iff)

text \<open>The loop passes over every URL that parses to a hostname with no excluded token.\<close>

lemma scanTrackers_skip:
  "\<forall>u \<in> set pre. \<exists>h. hostname pf u = Some h \<and> \<not> hostExcluded cfg (toLowerCase pf h) \<Longrightarrow>
   scanTrackers cfg pf (pre @ rest) = scanTrackers cfg pf rest"
  by (induction pre) (auto simp: Let_def)

lemma scanTrackers_all_pass:
  "\<forall>u \<in> set urls. \<exists>h. hostname pf u = Some h \<and> \<not> hostExcluded cfg (toLowerCase pf h) \<Longrightarrow>
   scanTrackers cfg pf urls = Inr False"
  using scanTrackers_skip [of urls pf cfg "[]"] by simp

lemma scanTrackers_stop_unparsable:
  "\<forall>u \<in> set pre. \<exists>h. hostname pf u = Some h \<and> \<not> hostExcluded cfg (toLowerCase pf h) \<Longrightarrow>
   hostname pf url = None \<Longrightarrow>
   scanTrackers cfg pf (pre @ url # post) = Inl (TypeError ''Invalid URL'')"
  by (simp add: scanTrackers_skip)

lemma scanTrackers_stop_excluded:
  "\<forall>u \<in> set pre. \<exists>h. hostname pf u = Some h \<and> \<not> hostExcluded cfg (toLowerCase pf h) \<Longrightarrow>
   hostname pf url = Some h \<Longrightarrow> hostExcluded cfg (toLowerCase pf h) \<Longrightarrow>
   scanTrackers cfg pf (pre @ url # post) = Inr True"
  by (simp add: scanTrackers_skip)

text \<open>Every list either passes entirely or has a first URL at which the loop stops.\<close>

lemma scanTrackers_first_stop:
  assumes "\<not> (\<forall>u \<in> set urls. \<exists>h. hostname pf u = Some h \<and>
                                   \<not> hostExcluded cfg (toLowerCase pf h))"
  shows "\<exists>pre url post. urls = pre @ url # post \<and>
           (\<forall>u \<in> set pre. \<exists>h. hostname pf u = Some h \<and> \<not> hostExcluded cfg (toLowerCase pf h)) \<and>
           (hostname pf url = None \<or>
            (\<exists>h. hostname pf url = Some h \<and> hostExcluded cfg (toLowerCase pf h)))"
proof -
  let ?stops = "\<lambda>u. \<not> (\<exists>h. hostname pf u = Some h \<and> \<not> hostExcluded cfg (toLowerCase pf h))"
  from assms have "\<exists>u \<in> set urls. ?stops u" by simp
  from split_list_first_prop [OF this]
  obtain pre url post where s: "urls = pre @ url # post" "?stops url" "\<forall>u \<in> set pre. \<not> ?stops u"
    by blast
  from s(2) have "hostname pf url = None \<or>
      (\<exists>h. hostname pf url = Some h \<and> hostExcluded cfg (toLowerCase pf h))"
    by (cases "hostname pf url") auto
  with s(1,3) show ?thesis by auto
qed

lemma scanTrackers_throws_iff:
  "(\<exists>e. scanTrackers cfg pf urls = Inl e) =
   (\<exists>pre url post. urls = pre @ url # post \<and> hostname pf url = None \<and>
      (\<forall>u \<in> set pre. \<exists>h. hostname pf u = Some h \<and> \<not> hostExcluded cfg (toLowerCase pf h)))"
  (is "?L = ?R")
proof
  assume ?R
  then show ?L using scanTrackers_stop_unparsable [of _ pf cfg] by fastforce
next
  assume l: ?L
  show ?R
  proof (cases "\<forall>u \<in> set urls. \<exists>h. hostname pf u = Some h \<and>
                                   \<not> hostExcluded cfg (toLowerCase pf h)")
    case True
    from scanTrackers_all_pass [OF this] l show ?thesis by simp
  next
    case False
    from scanTrackers_first_stop [OF this]
    obtain pre url post where s: "urls = pre @ url # post"
      and g: "\<forall>u \<in> set pre. \<exists>h. hostname pf u = Some h \<and> \<not> hostExcluded cfg (toLowerCase pf h)"
      and d: "hostname pf url = None \<or>
              (\<exists>h. hostname pf url = Some h \<and> hostExcluded cfg (toLowerCase pf h))"
      by blast
    from d show ?thesis
    proof
      assume "hostname pf url = None"
      with s g show ?thesis by blast
    next
      assume "\<exists>h. hostname pf url = Some h \<and> hostExcluded cfg (toLowerCase pf h)"
      then obtain h where "hostname pf url = Some h" "hostExcluded cfg (toLowerCase pf h)"
        by blast
      from scanTrackers_stop_excluded [OF g this] s l show ?thesis by simp
    qed
  qed
qed

lemma scanTrackers_true_iff:
  "(scanTrackers cfg pf urls = Inr True) =
   (\<exists>pre url post h. urls = pre @ url # post \<and> hostname pf url = Some h \<and>
      hostExcluded cfg (toLowerCase pf h) \<and>
      (\<forall>u \<in> set pre. \<exists>h. hostname pf u = Some h \<and> \<not> hostExcluded cfg (toLowerCase pf h)))"
  (is "?L = ?R")
proof
  assume ?R
  then show ?L using scanTrackers_stop_excluded [of _ pf cfg] by fastforce
next
  assume l: ?L
  show ?R
  proof (cases "\<forall>u \<in> set urls. \<exists>h. hostname pf u = Some h \<and>
                                   \<not> hostExcluded cfg (toLowerCase pf h)")
    case True
    from scanTrackers_all_pass [OF this] l show ?thesis by simp
  next
    case False
    from scanTrackers_first_stop [OF this]
    obtain pre url post where s: "urls = pre @ url # post"
      and g: "\<forall>u \<in> set pre. \<exists>h. hostname pf u = Some h \<and> \<not> hostExcluded cfg (toLowerCase pf h)"
      and d: "hostname pf url = None \<or>
              (\<exists>h. hostname pf url = Some h \<and> hostExcluded cfg (toLowerCase pf h))"
      by blast
    from d show ?thesis
    proof
      assume "hostname pf url = None"
      from scanTrackers_stop_unparsable [OF g this] s l show ?thesis by simp
    next
      assume "\<exists>h. hostname pf url = Some h \<and> hostExcluded cfg (toLowerCase pf h)"
      with s g show ?thesis by blast
    qed
  qed
qed

lemma scanTrackers_false_iff:
  "(scanTrackers cfg pf urls = Inr False) =
   (\<forall>u \<in> set urls. \<exists>h. hostname pf u = Some h \<and> \<not> hostExcluded cfg (toLowerCase pf h))"
  (is "?L = ?R")
proof
  assume ?R
  then show ?L by (rule scanTrackers_all_pass)
next
  assume l: ?L
  show ?R
  proof (rule ccontr)
    assume "\<not> ?R"
    from scanTrackers_first_stop [OF this]
    obtain pre url post where s: "urls = pre @ url # post"
      and g: "\<forall>u \<in> set pre. \<exists>h. hostname pf u = Some h \<and> \<not> hostExcluded cfg (toLowerCase pf h)"
      and d: "hostname pf url = None \<or>
              (\<exists>h. hostname pf url = Some h \<and> hostExcluded cfg (toLowerCase pf h))"
      by blast
    from d show False
    proof
      assume "hostname pf url = None"
      from scanTrackers_stop_unparsable [OF g this] s l show False by simp
    next
      assume "\<exists>h. hostname pf url = Some h \<and> hostExcluded cfg (toLowerCase pf h)"
      then obtain h where "hostname pf url = Some h" "hostExcluded cfg (toLowerCase pf h)"
        by blast
      from scanTrackers_stop_excluded [OF g this] s l show False by simp
    qed
  qed
qed

lemma scanTrackers_error:
  "scanTrackers cfg pf urls = Inl e \<Longrightarrow> e = TypeError ''Invalid URL''"
  by (induction urls) (auto simp: Let_def split: option.splits if_splits)

lemma scanTrackers_Inr:
  "scanTrackers cfg pf urls = Inr b \<Longrightarrow>
   b = (\<exists>url \<in> set urls. case hostname pf url of None \<Rightarrow> False
                                            | Some h \<Rightarrow> hostExcluded cfg (toLowerCase pf h))"
  by (induction urls) (auto simp: Let_def split: option.splits if_splits)

lemma scanTrackers_total:
  "\<forall>url \<in> set urls. hostname pf url \<noteq> None \<Longrightarrow> \<exists>b. scanTrackers cfg pf urls = Inr b"
  by (induction urls) (auto simp: Let_def split: option.splits)

lemma hasExcludedTracker_Inr:
  "b = spec_excluded_by_tracker cfg pf t" if "hasExcludedTracker cfg pf t = Inr b"
proof (cases "excludedTrackers cfg = []")
  case True
  then show ?thesis
    using that by (auto simp: hasExcludedTracker_def spec_excluded_by_tracker_def split: option.splits)
next
  case False
  with that have "scanTrackers cfg pf (trackerUrls t) = Inr b"
    by (simp add: hasExcludedTracker_def)
  from scanTrackers_Inr [OF this] show ?thesis
    by (simp add: spec_excluded_by_tracker_def hostExcluded_iff cong: option.case_cong)
qed

lemma filter_throwing_Inr:
  "filter_throwing p xs = Inr ys \<Longrightarrow>
   (\<forall>x \<in> set xs. \<exists>b. p x = Inr b) \<and> ys = filter (\<lambda>x. p x = Inr True) xs"
  by (induction xs arbitrary: ys) (auto split: sum.splits if_splits)

lemma filter_throwing_total:
  "\<forall>x \<in> set xs. \<exists>b. p x = Inr b \<Longrightarrow>
   filter_throwing p xs = Inr (filter (\<lambda>x. p x = Inr True) xs)"
  by (induction xs) (auto split: sum.splits)

lemma filter_throwing_throws_iff:
  "(\<exists>e. filter_throwing p xs = Inl e) = (\<exists>x \<in> set xs. \<exists>e. p x = Inl e)"
  by (induction xs) (auto split: sum.splits)

lemma noExcludedTracker_Inr:
  "noExcludedTracker cfg pf t = Inr b \<Longrightarrow> b = (\<not> spec_excluded_by_tracker cfg pf t)"
  by (auto simp: noExcludedTracker_def split: sum.splits dest: hasExcludedTracker_Inr)

lemma select_eligible_Inr:
  assumes "select_eligible cfg pf ts = Inr (byLabel, eligible)"
  shows "byLabel = filter (isAllowedLabel cfg pf) ts \<and> eligible = filter (spec_eligible cfg pf) ts"
proof -
  from assms
  have f: "filter_throwing (noExcludedTracker cfg pf) (filter (isAllowedLabel cfg pf) ts) = Inr eligible"
    and bl: "byLabel = filter (isAllowedLabel cfg pf) ts"
    by (auto simp: select_eligible_def Let_def split: sum.splits)
  from filter_throwing_Inr [OF f]
  have tot: "\<forall>x \<in> set (filter (isAllowedLabel cfg pf) ts). \<exists>b. noExcludedTracker cfg pf x = Inr b"
    and el: "eligible = filter (\<lambda>x. noExcludedTracker cfg pf x = Inr True)
                         (filter (isAllowedLabel cfg pf) ts)"
    by auto
  have "filter (\<lambda>x. noExcludedTracker cfg pf x = Inr True) (filter (isAllowedLabel cfg pf) ts)
        = filter (spec_eligible cfg pf) ts"
    unfolding filter_filter
  proof (rule filter_cong [OF refl])
    fix x assume "x \<in> set ts"
    show "(isAllowedLabel cfg pf x \<and> noExcludedTracker cfg pf x = Inr True) = spec_eligible cfg pf x"
    proof (cases "isAllowedLabel cfg pf x")
      case True
      with tot \<open>x \<in> set ts\<close> obtain b where b: "noExcludedTracker cfg pf x = Inr b" by auto
      from noExcludedTracker_Inr [OF b] b True show ?thesis
        by (auto simp: spec_eligible_def isAllowedLabel_def)
    next
      case False
      then show ?thesis by (simp add: spec_eligible_def isAllowedLabel_def)
    qed
  qed
  with el bl show ?thesis by simp
qed

lemma select_eligible_total:
  assumes "\<forall>t \<in> set ts. isAllowedLabel cfg pf t \<longrightarrow> (\<exists>b. hasExcludedTracker cfg pf t = Inr b)"
  shows "select_eligible cfg pf ts =
           Inr (filter (isAllowedLabel cfg pf) ts, filter (spec_eligible cfg pf) ts)"
proof -
  from assms
  have "\<forall>x \<in> set (filter (isAllowedLabel cfg pf) ts). \<exists>b. noExcludedTracker cfg pf x = Inr b"
    by (auto simp: noExcludedTracker_def)
  from filter_throwing_total [OF this]
  obtain el where "select_eligible cfg pf ts = Inr (filter (isAllowedLabel cfg pf) ts, el)"
    by (simp add: select_eligible_def Let_def)
  with select_eligible_Inr [OF this] show ?thesis by simp
qed

lemma noExcludedTracker_throws:
  "(\<exists>e. noExcludedTracker cfg pf t = Inl e) = (\<exists>e. hasExcludedTracker cfg pf t = Inl e)"
  by (cases "hasExcludedTracker cfg pf t") (simp_all add: noExcludedTracker_def)

lemma select_eligible_throws_iff:
  "(\<exists>e. select_eligible cfg pf ts = Inl e) =
   (\<exists>t \<in> set ts. isAllowedLabel cfg pf t \<and> (\<exists>e. hasExcludedTracker cfg pf t = Inl e))"
proof -
  have "(\<exists>e. select_eligible cfg pf ts = Inl e) =
        (\<exists>e. filter_throwing (noExcludedTracker cfg pf) (filter (isAllowedLabel cfg pf) ts) = Inl e)"
    by (auto simp: select_eligible_def Let_def split: sum.splits)
  also have "\<dots> = (\<exists>t \<in> set (filter (isAllowedLabel cfg pf) ts).
                      \<exists>e. noExcludedTracker cfg pf t = Inl e)"
    by (rule filter_throwing_throws_iff)
  also have "\<dots> = (\<exists>t \<in> set ts. isAllowedLabel cfg pf t \<and>
                                 (\<exists>e. hasExcludedTracker cfg pf t = Inl e))"
    by (auto simp: noExcludedTracker_throws)
  finally show ?thesis .
qed

text \<open>
  C6 (as amended).  Whenever the two filters of \<^verbatim>\<open>run\<close> complete, the list kept by the
  label filter is the list of fetched torrents whose lower-cased label is in the
  allow-list, and the eligible list is exactly the list of fetched torrents whose
  lower-cased label is in the allow-list and none of whose announce-URL hostnames contains
  an excluded-tracker token.  The filters complete, with that result, whenever every
  announce URL of every torrent with an allowed label parses.  With an empty allow-list they
  always complete, with no eligible torrent; with an empty exclusion list they always
  complete, and the eligible torrents are all those with an allowed label.
\<close>

theorem eligible_is_allowed_and_not_excluded:
  "(select_eligible cfg pf ts = Inr (byLabel, eligible) \<longrightarrow>
      byLabel = filter (isAllowedLabel cfg pf) ts \<and>
      eligible = filter (spec_eligible cfg pf) ts) \<and>
   ((\<forall>t \<in> set ts. isAllowedLabel cfg pf t \<longrightarrow>
        (\<forall>url \<in> set (trackerUrls t). hostname pf url \<noteq> None)) \<longrightarrow>
      select_eligible cfg pf ts =
        Inr (filter (isAllowedLabel cfg pf) ts, filter (spec_eligible cfg pf) ts)) \<and>
   (allowedLabels cfg = [] \<longrightarrow> select_eligible cfg pf ts = Inr ([], [])) \<and>
   (excludedTrackers cfg = [] \<longrightarrow>
      select_eligible cfg pf ts =
        Inr (filter (isAllowedLabel cfg pf) ts, filter (isAllowedLabel cfg pf) ts))"
proof (intro conjI impI)
  assume "select_eligible cfg pf ts = Inr (byLabel, eligible)"
  from select_eligible_Inr [OF this]
  show "byLabel = filter (isAllowedLabel cfg pf) ts"
    and "eligible = filter (spec_eligible cfg pf) ts"
    by simp_all
next
  assume p: "\<forall>t \<in> set ts. isAllowedLabel cfg pf t \<longrightarrow>
               (\<forall>url \<in> set (trackerUrls t). hostname pf url \<noteq> None)"
  have "\<forall>t \<in> set ts. isAllowedLabel cfg pf t \<longrightarrow> (\<exists>b. hasExcludedTracker cfg pf t = Inr b)"
  proof (intro ballI impI)
    fix t assume "t \<in> set ts" "isAllowedLabel cfg pf t"
    with p have "\<forall>url \<in> set (trackerUrls t). hostname pf url \<noteq> None" by blast
    from scanTrackers_total [OF this, of cfg]
    show "\<exists>b. hasExcludedTracker cfg pf t = Inr b"
      by (auto simp: hasExcludedTracker_def)
  qed
  then show "select_eligible cfg pf ts =
        Inr (filter (isAllowedLabel cfg pf) ts, filter (spec_eligible cfg pf) ts)"
    by (rule select_eligible_total)
next
  assume "allowedLabels cfg = []"
  then have "filter (isAllowedLabel cfg pf) ts = []" by (simp add: isAllowedLabel_def)
  then show "select_eligible cfg pf ts = Inr ([], [])"
    by (simp add: select_eligible_def)
next
  assume e: "excludedTrackers cfg = []"
  then have "\<forall>t \<in> set ts. isAllowedLabel cfg pf t \<longrightarrow> (\<exists>b. hasExcludedTracker cfg pf t = Inr b)"
    by (auto simp: hasExcludedTracker_def)
  from select_eligible_total [OF this]
  have "select_eligible cfg pf ts =
          Inr (filter (isAllowedLabel cfg pf) ts, filter (spec_eligible cfg pf) ts)" .
  moreover have "filter (spec_eligible cfg pf) ts = filter (isAllowedLabel cfg pf) ts"
    using e by (auto simp: spec_eligible_def isAllowedLabel_def spec_excluded_by_tracker_def
                     split: option.splits intro!: filter_cong)
  ultimately show "select_eligible cfg pf ts =
        Inr (filter (isAllowedLabel cfg pf) ts, filter (isAllowedLabel cfg pf) ts)" by simp
qed

theorem eligible_is_allowed_and_not_excluded_witness:
  "list_all (\<lambda>t. list_all (\<lambda>url. hostname example_platform url \<noteq> None) (trackerUrls t))
     [example_torrent, example_other, example_private] \<and>
   select_eligible example_config example_platform
     [example_torrent, example_other, example_private] =
     Inr ([example_torrent, example_private], [example_torrent]) \<and>
   filter (spec_eligible example_config example_platform)
     [example_torrent, example_other, example_private] = [example_torrent] \<and>
   allowedLabels (example_config\<lparr>allowedLabels := []\<rparr>) = [] \<and>
   select_eligible (example_config\<lparr>allowedLabels := []\<rparr>) example_platform
     [example_torrent, example_other, example_private] = Inr ([], []) \<and>
   excludedTrackers (example_config\<lparr>excludedTrackers := []\<rparr>) = [] \<and>
   select_eligible (example_config\<lparr>excludedTrackers := []\<rparr>) example_platform
     [example_torrent, example_other, example_private] =
     Inr ([example_torrent, example_private], [example_torrent, example_private])"
proof -
  let ?ts = "[example_torrent, example_other, example_private]"
  note main = eligible_is_allowed_and_not_excluded
    [where cfg = example_config and pf = example_platform and ts = "?ts"]
  note empty_allow = eligible_is_allowed_and_not_excluded
    [where cfg = "example_config\<lparr>allowedLabels := []\<rparr>" and pf = example_platform and ts = "?ts"]
  note empty_excl = eligible_is_allowed_and_not_excluded
    [where cfg = "example_config\<lparr>excludedTrackers := []\<rparr>" and pf = example_platform
       and ts = "?ts"]
  have q: "list_all (\<lambda>t. list_all (\<lambda>url. hostname example_platform url \<noteq> None) (trackerUrls t)) ?ts"
    by code_simp
  then have p: "\<forall>t \<in> set ?ts. isAllowedLabel example_config example_platform t \<longrightarrow>
                  (\<forall>url \<in> set (trackerUrls t). hostname example_platform url \<noteq> None)"
    by (simp only: list_all_iff) blast
  have l: "filter (isAllowedLabel example_config example_platform) ?ts =
             [example_torrent, example_private]"
    by code_simp
  have l2: "filter (isAllowedLabel (example_config\<lparr>excludedTrackers := []\<rparr>) example_platform) ?ts =
            [example_torrent, example_private]"
    by code_simp
  have a: "allowedLabels (example_config\<lparr>allowedLabels := []\<rparr>) = []" by simp
  have x: "excludedTrackers (example_config\<lparr>excludedTrackers := []\<rparr>) = []" by simp
  have r0: "select_eligible example_config example_platform ?ts =
              Inr (filter (isAllowedLabel example_config example_platform) ?ts,
                   filter (spec_eligible example_config example_platform) ?ts)"
    using main [THEN conjunct2, THEN conjunct1, THEN mp, OF p] .
  have k: "select_eligible example_config example_platform ?ts =
             Inr ([example_torrent, example_private], [example_torrent])"
    by code_simp
  have e: "filter (spec_eligible example_config example_platform) ?ts = [example_torrent]"
    using main [where byLabel = "[example_torrent, example_private]"
                  and eligible = "[example_torrent]", THEN conjunct1, THEN mp, OF k]
    by simp
  have r1: "select_eligible example_config example_platform ?ts =
              Inr ([example_torrent, example_private], [example_torrent])"
    using r0 by (simp only: l e)
  have r2: "select_eligible (example_config\<lparr>allowedLabels := []\<rparr>) example_platform ?ts =
              Inr ([], [])"
    using empty_allow [THEN conjunct2, THEN conjunct2, THEN conjunct1, THEN mp, OF a] .
  have r3: "select_eligible (example_config\<lparr>excludedTrackers := []\<rparr>) example_platform ?ts =
              Inr ([example_torrent, example_private], [example_torrent, example_private])"
    using empty_excl [THEN conjunct2, THEN conjunct2, THEN conjunct2, THEN mp, OF x]
    by (simp only: l2)
  from q r1 e a r2 x r3 show ?thesis by (intro conjI)
qed

text \<open>
  A torrent with an allowed label whose tracker came without an announce URL, so that its
  URL list is the empty string alone, under a non-empty exclusion list: no hostname of it
  contains an excluded token, so the rule above makes it eligible, yet the filters throw
  and there is no eligible list.  The same happens to the torrent as the client and
  \<^verbatim>\<open>hydrate\<close> build it from the daemon's answer.
\<close>

theorem select_eligible_throws_counterexample:
  "isAllowedLabel example_config example_platform example_unparsable \<and>
   excludedTrackers example_config \<noteq> [] \<and>
   trackerUrls example_unparsable = [''''] \<and>
   spec_eligible example_config example_platform example_unparsable \<and>
   select_eligible example_config example_platform [example_unparsable] =
     Inl (TypeError ''Invalid URL'') \<and>
   spec_eligible example_config example_platform
     (hydrate 1700003600000 (normalizeTorrent example_wire_torrent)) \<and>
   select_eligible example_config example_platform
     (hydrateAll clock_early [normalizeTorrent example_wire_torrent]) =
     Inl (TypeError ''Invalid URL'')"
  by code_simp

lemma hydrate_trackerUrls:
  "trackerUrls (hydrate now (normalizeTorrent w)) =
     map (\<lambda>tr. field_str_or (w_announce tr) []) (field_list_or (w_trackers w) [])"
  by (simp add: hydrate_def Let_def normalizeTorrent_def normalizeTracker_def str_or_def
        field_str_or_def o_def split: json_field.splits)

lemma run_eligibility_throws:
  assumes "getTorrents net (announce_fetch cfg st) = (Inr raws, st1)"
    and "select_eligible cfg pf (hydrateAll clock raws) = Inl e"
  shows "fst (run cfg pf clock net st) = Inl e \<and>
         calls (snd (run cfg pf clock net st)) = calls st1"
  using assms
  by (simp add: run_def Let_def log_write_def displayTorrentsSummary_def)

text \<open>
  C8 (as amended).  With a non-empty exclusion list the outcome of \<^verbatim>\<open>hasExcludedTracker\<close>
  is decided by the first tracker URL that does not parse or whose hostname contains an
  excluded token: the check throws, and what it throws is the URL parser's
  \<^verbatim>\<open>TypeError\<close>, exactly when some URL of the torrent does not parse and every URL before it
  in the list parses to a hostname that contains no excluded token; it returns \<open>true\<close>
  exactly when some URL parses to a hostname that contains an excluded token and every URL
  before it parses to a hostname that contains none; it returns \<open>false\<close> exactly when every
  URL parses to a hostname that contains none.  The filters of \<^verbatim>\<open>run\<close> throw exactly when
  the check throws for a torrent whose label is allowed, and \<^verbatim>\<open>run\<close> then throws the same
  exception without calling the client again.  The URL list of a hydrated torrent has the
  empty string wherever the daemon sent no announce URL.
\<close>

theorem hasExcludedTracker_throws_iff:
  assumes "excludedTrackers cfg \<noteq> []"
  shows "((\<exists>e. hasExcludedTracker cfg pf t = Inl e) =
          (\<exists>pre url post. trackerUrls t = pre @ url # post \<and> hostname pf url = None \<and>
             (\<forall>u \<in> set pre. \<exists>h. hostname pf u = Some h \<and>
                                \<not> hostExcluded cfg (toLowerCase pf h)))) \<and>
         (\<forall>e. hasExcludedTracker cfg pf t = Inl e \<longrightarrow> e = TypeError ''Invalid URL'') \<and>
         ((hasExcludedTracker cfg pf t = Inr True) =
          (\<exists>pre url post h. trackerUrls t = pre @ url # post \<and> hostname pf url = Some h \<and>
             hostExcluded cfg (toLowerCase pf h) \<and>
             (\<forall>u \<in> set pre. \<exists>h. hostname pf u = Some h \<and>
                                \<not> hostExcluded cfg (toLowerCase pf h)))) \<and>
         ((hasExcludedTracker cfg pf t = Inr False) =
          (\<forall>u \<in> set (trackerUrls t). \<exists>h. hostname pf u = Some h \<and>
                                         \<not> hostExcluded cfg (toLowerCase pf h))) \<and>
         ((\<exists>e. select_eligible cfg pf ts = Inl e) =
          (\<exists>t \<in> set ts. isAllowedLabel cfg pf t \<and> (\<exists>e. hasExcludedTracker cfg pf t = Inl e))) \<and>
         (\<forall>raws st1 e.
            getTorrents net (announce_fetch cfg st) = (Inr raws, st1) \<and>
            select_eligible cfg pf (hydrateAll clock raws) = Inl e \<longrightarrow>
            fst (run cfg pf clock net st) = Inl e \<and>
            calls (snd (run cfg pf clock net st)) = calls st1) \<and>
         trackerUrls (hydrate now (normalizeTorrent w)) =
           map (\<lambda>tr. field_str_or (w_announce tr) []) (field_list_or (w_trackers w) []) \<and>
         field_str_or Absent [] = []"
proof -
  have d: "hasExcludedTracker cfg pf t = scanTrackers cfg pf (trackerUrls t)"
    using assms by (simp add: hasExcludedTracker_def)
  have 1: "(\<exists>e. hasExcludedTracker cfg pf t = Inl e) =
          (\<exists>pre url post. trackerUrls t = pre @ url # post \<and> hostname pf url = None \<and>
             (\<forall>u \<in> set pre. \<exists>h. hostname pf u = Some h \<and>
                                \<not> hostExcluded cfg (toLowerCase pf h)))"
    unfolding d by (rule scanTrackers_throws_iff)
  have 2: "\<forall>e. hasExcludedTracker cfg pf t = Inl e \<longrightarrow> e = TypeError ''Invalid URL''"
    unfolding d using scanTrackers_error by blast
  have 3: "(hasExcludedTracker cfg pf t = Inr True) =
          (\<exists>pre url post h. trackerUrls t = pre @ url # post \<and> hostname pf url = Some h \<and>
             hostExcluded cfg (toLowerCase pf h) \<and>
             (\<forall>u \<in> set pre. \<exists>h. hostname pf u = Some h \<and>
                                \<not> hostExcluded cfg (toLowerCase pf h)))"
    unfolding d by (rule scanTrackers_true_iff)
  have 4: "(hasExcludedTracker cfg pf t = Inr False) =
          (\<forall>u \<in> set (trackerUrls t). \<exists>h. hostname pf u = Some h \<and>
                                         \<not> hostExcluded cfg (toLowerCase pf h))"
    unfolding d by (rule scanTrackers_false_iff)
  have 6: "\<forall>raws st1 e.
            getTorrents net (announce_fetch cfg st) = (Inr raws, st1) \<and>
            select_eligible cfg pf (hydrateAll clock raws) = Inl e \<longrightarrow>
            fst (run cfg pf clock net st) = Inl e \<and>
            calls (snd (run cfg pf clock net st)) = calls st1"
  proof (intro allI impI)
    fix raws st1 e
    assume h: "getTorrents net (announce_fetch cfg st) = (Inr raws, st1) \<and>
               select_eligible cfg pf (hydrateAll clock raws) = Inl e"
    from run_eligibility_throws [OF conjunct1 [OF h] conjunct2 [OF h]]
    show "fst (run cfg pf clock net st) = Inl e \<and>
          calls (snd (run cfg pf clock net st)) = calls st1" .
  qed
  have 8: "field_str_or Absent [] = []" by (simp add: field_str_or_def)
  from 1 2 3 4 select_eligible_throws_iff [of cfg pf ts] 6 hydrate_trackerUrls [of now w] 8
  show ?thesis by (intro conjI)
qed

theorem hasExcludedTracker_throws_iff_witness:
  "excludedTrackers example_config \<noteq> [] \<and>
   hostname example_platform ''http://tracker.example.org:80/announce'' =
     Some ''tracker.example.org'' \<and>
   \<not> hostExcluded example_config (toLowerCase example_platform ''tracker.example.org'') \<and>
   hostname example_platform '''' = None \<and>
   hostname example_platform ''udp://Tracker.Excluded.org:6969/announce'' =
     Some ''Tracker.Excluded.org'' \<and>
   hostExcluded example_config (toLowerCase example_platform ''Tracker.Excluded.org'') \<and>
   trackerUrls example_late_unparsable =
     [''http://tracker.example.org:80/announce''] @ '''' # [] \<and>
   hasExcludedTracker example_config example_platform example_late_unparsable =
     Inl (TypeError ''Invalid URL'') \<and>
   trackerUrls example_second_excluded =
     [''http://tracker.example.org:80/announce''] @
     ''udp://Tracker.Excluded.org:6969/announce'' # [''''] \<and>
   hasExcludedTracker example_config example_platform example_second_excluded = Inr True \<and>
   hasExcludedTracker example_config example_platform example_torrent = Inr False"
proof -
  let ?ok = "''http://tracker.example.org:80/announce''"
  let ?bad = "''udp://Tracker.Excluded.org:6969/announce''"
  have a: "excludedTrackers example_config \<noteq> []" by (simp add: example_config_def)
  have h1: "hostname example_platform ?ok = Some ''tracker.example.org''" by code_simp
  have n1: "\<not> hostExcluded example_config (toLowerCase example_platform ''tracker.example.org'')"
    by code_simp
  have h0: "hostname example_platform '''' = None" by code_simp
  have h2: "hostname example_platform ?bad = Some ''Tracker.Excluded.org''" by code_simp
  have x2: "hostExcluded example_config (toLowerCase example_platform ''Tracker.Excluded.org'')"
    by code_simp
  have pre: "\<forall>u \<in> set [?ok]. \<exists>h. hostname example_platform u = Some h \<and>
               \<not> hostExcluded example_config (toLowerCase example_platform h)"
    using h1 n1 by simp
  have u1: "trackerUrls example_late_unparsable = [?ok] @ '''' # []"
    by (simp add: example_late_unparsable_def)
  have u2: "trackerUrls example_second_excluded = [?ok] @ ?bad # ['''']"
    by (simp add: example_second_excluded_def)
  have u3: "trackerUrls example_torrent = [?ok]"
    by (simp add: example_torrent_def)
  note late = hasExcludedTracker_throws_iff
    [OF a, where pf = example_platform and t = example_late_unparsable]
  have "\<exists>pre url post. trackerUrls example_late_unparsable = pre @ url # post \<and>
          hostname example_platform url = None \<and>
          (\<forall>u \<in> set pre. \<exists>h. hostname example_platform u = Some h \<and>
                             \<not> hostExcluded example_config (toLowerCase example_platform h))"
    using u1 h0 pre by blast
  from late [THEN conjunct1, THEN iffD2, OF this]
  obtain e where e: "hasExcludedTracker example_config example_platform example_late_unparsable =
                       Inl e" ..
  from late [THEN conjunct2, THEN conjunct1, rule_format, OF e] e
  have r1: "hasExcludedTracker example_config example_platform example_late_unparsable =
              Inl (TypeError ''Invalid URL'')" by simp
  note second = hasExcludedTracker_throws_iff
    [OF a, where pf = example_platform and t = example_second_excluded]
  have "\<exists>pre url post h. trackerUrls example_second_excluded = pre @ url # post \<and>
          hostname example_platform url = Some h \<and>
          hostExcluded example_config (toLowerCase example_platform h) \<and>
          (\<forall>u \<in> set pre. \<exists>h. hostname example_platform u = Some h \<and>
                             \<not> hostExcluded example_config (toLowerCase example_platform h))"
    using u2 h2 x2 pre by blast
  from second [THEN conjunct2, THEN conjunct2, THEN conjunct1, THEN iffD2, OF this]
  have r2: "hasExcludedTracker example_config example_platform example_second_excluded = Inr True" .
  note plain = hasExcludedTracker_throws_iff
    [OF a, where pf = example_platform and t = example_torrent]
  have "\<forall>u \<in> set (trackerUrls example_torrent).
          \<exists>h. hostname example_platform u = Some h \<and>
              \<not> hostExcluded example_config (toLowerCase example_platform h)"
    using pre unfolding u3 .
  from plain [THEN conjunct2, THEN conjunct2, THEN conjunct2, THEN conjunct1, THEN iffD2, OF this]
  have r3: "hasExcludedTracker example_config example_platform example_torrent = Inr False" .
  from a h1 n1 h0 h2 x2 u1 r1 u2 r2 r3 show ?thesis by (intro conjI)
qed

text \<open>
  A torrent whose first tracker is excluded and whose second announce URL is empty: the list
  holds a URL that does not parse, yet the check returns \<open>true\<close> and does not throw.
\<close>

theorem hasExcludedTracker_counterexample:
  "excludedTrackers example_config \<noteq> [] \<and>
   '''' \<in> set (trackerUrls example_masked) \<and> hostname example_platform '''' = None \<and>
   hasExcludedTracker example_config example_platform example_masked = Inr True"
  by code_simp

section \<open>Properties of the fetch loop\<close>

lemma try_fetch_Rejected:
  "net (length (sent st)) (torrent_get_request st) = Rejected msg \<Longrightarrow>
   try_fetch net k st = (Inl (wrap_rpc_error msg), st\<lparr>sent := sent st @ [torrent_get_request st]\<rparr>)"
  by (simp add: try_fetch_def torrent_get_request_def rpc_Rejected)

lemma try_fetch_success:
  "net (length (sent st)) (torrent_get_request st) = Responded r \<Longrightarrow> status r \<noteq> 409 \<Longrightarrow>
   ok r \<Longrightarrow> body r = Json ''success'' (Val \<lparr> torrents = Val ws \<rparr>) \<Longrightarrow>
   fst (try_fetch net k st) = Inr (map normalizeTorrent ws) \<and>
   sent (snd (try_fetch net k st)) = sent st @ [torrent_get_request st] \<and>
   slept (snd (try_fetch net k st)) = slept st"
  using capture_session_frame [of "st\<lparr>sent := sent st @ [torrent_get_request st]\<rparr>" r]
  by (simp add: try_fetch_def torrent_get_request_def rpc_success read_torrents_def
        field_list_or_def log_write_def same_frame_def)

lemma failed_state_0: "failed_state k 0 st = st"
  by (simp add: failed_state_def)

lemma fail_step:
  assumes "1 \<le> k" "k < 30"
    and "net (length (sent st)) (torrent_get_request st) = Rejected msg"
    and "is_connectivity (message_of (wrap_rpc_error msg))"
  shows "getTorrents_loop net k st = getTorrents_loop net (Suc k) (failed_state k 1 st)"
proof -
  have "catch_fetch k (wrap_rpc_error msg) (st\<lparr>sent := sent st @ [torrent_get_request st]\<rparr>) =
          (NextAttempt, failed_state k 1 st)"
    using assms
    by (simp add: catch_fetch_def after_classification_def failed_state_def sleep_def
          log_write_def connecting_notice_def torrent_get_request_def build_request_def)
  with assms show ?thesis
    by (simp add: getTorrents_loop.simps [of net k st] try_fetch_Rejected)
qed

lemma failed_state_Suc:
  "1 \<le> k \<Longrightarrow> failed_state (Suc k) j (failed_state k 1 st) = failed_state k (Suc j) st"
  by (simp add: failed_state_def torrent_get_request_def build_request_def
        connecting_notice_def replicate_append_same)

lemma fail_steps:
  "1 \<le> k \<Longrightarrow> k + j \<le> 30 \<Longrightarrow>
   \<forall>i<j. \<exists>msg. net (length (sent st) + i) (torrent_get_request st) = Rejected msg \<and>
                 is_connectivity (message_of (wrap_rpc_error msg)) \<Longrightarrow>
   getTorrents_loop net k st = getTorrents_loop net (k + j) (failed_state k j st)"
proof (induction j arbitrary: k st)
  case 0
  then show ?case by (simp add: failed_state_0)
next
  case (Suc j)
  from Suc.prems(3) obtain msg where
    m: "net (length (sent st)) (torrent_get_request st) = Rejected msg"
       "is_connectivity (message_of (wrap_rpc_error msg))"
    by force
  from Suc.prems have k: "1 \<le> k" "k < 30" by simp_all
  let ?s = "failed_state k 1 st"
  have req: "torrent_get_request ?s = torrent_get_request st"
    by (simp add: failed_state_def torrent_get_request_def build_request_def)
  have len: "length (sent ?s) = Suc (length (sent st))"
    by (simp add: failed_state_def)
  have rest: "\<forall>i<j. \<exists>msg. net (length (sent ?s) + i) (torrent_get_request ?s) = Rejected msg \<and>
                 is_connectivity (message_of (wrap_rpc_error msg))"
  proof (intro allI impI)
    fix i assume "i < j"
    then have "Suc i < Suc j" by simp
    with Suc.prems(3) show "\<exists>msg. net (length (sent ?s) + i) (torrent_get_request ?s) = Rejected msg \<and>
                 is_connectivity (message_of (wrap_rpc_error msg))"
      unfolding req len by (metis add_Suc_shift)
  qed
  have "getTorrents_loop net k st = getTorrents_loop net (Suc k) ?s"
    by (rule fail_step) (rule k m)+
  also have "\<dots> = getTorrents_loop net (Suc k + j) (failed_state (Suc k) j ?s)"
    using Suc.IH [of "Suc k" ?s] Suc.prems rest by simp
  finally show ?case using failed_state_Suc [OF k(1), of j st] by simp
qed

lemma last_attempt_fails:
  assumes "net (length (sent st)) (torrent_get_request st) = Rejected msg"
    and "is_connectivity (message_of (wrap_rpc_error msg))"
  shows "getTorrents_loop net 30 st =
           (Inl (wrap_rpc_error msg),
            log_write (LogError ''Connection failed after 30 attempts'')
              (st\<lparr>sent := sent st @ [torrent_get_request st]\<rparr>))"
  using assms
  by (simp add: getTorrents_loop.simps [of net 30 st] try_fetch_Rejected catch_fetch_def
        after_classification_def)

lemma entered_facts:
  "torrent_get_request (entered st) = torrent_get_request st"
  "sent (entered st) = sent st" "slept (entered st) = slept st"
  by (simp_all add: entered_def torrent_get_request_def build_request_def)

lemma failed_state_facts:
  "torrent_get_request (failed_state k j st) = torrent_get_request st"
  "length (sent (failed_state k j st)) = length (sent st) + j"
  "slept (failed_state k j st) = slept st @ replicate j 1000"
  by (simp_all add: failed_state_def torrent_get_request_def build_request_def)

lemma getTorrents_after_failures:
  assumes "j < 30"
    and "\<forall>i<j. \<exists>msg. net (length (sent st) + i) (torrent_get_request st) = Rejected msg \<and>
                 is_connectivity (message_of (wrap_rpc_error msg))"
  shows "getTorrents net st = getTorrents_loop net (Suc j) (failed_state 1 j (entered st))"
proof -
  have "getTorrents_loop net 1 (entered st) =
          getTorrents_loop net (1 + j) (failed_state 1 j (entered st))"
    using assms by (intro fail_steps) (simp_all add: entered_facts)
  then show ?thesis by (simp add: getTorrents_def entered_def)
qed

text \<open>
  C5.  Let the first \<open>j < 30\<close> attempts of \<^verbatim>\<open>getTorrents\<close> be rejected with connectivity
  errors.  If attempt \<open>j + 1\<close> succeeds, \<^verbatim>\<open>getTorrents\<close> returns its torrent list and no
  error; when the daemon answers that attempt with a plain success response, exactly
  \<open>j + 1 \<le> 30\<close> requests have been sent and \<open>j\<close> delays of 1000 ms awaited.  If all 30
  attempts are rejected with connectivity errors, the error of attempt 30 is thrown after
  exactly 30 requests and 29 delays of 1000 ms.
\<close>

theorem getTorrents_connectivity_retry:
  "(j < 30 \<and>
    (\<forall>i<j. \<exists>msg. net (length (sent st) + i) (torrent_get_request st) = Rejected msg \<and>
                  is_connectivity (message_of (wrap_rpc_error msg))) \<longrightarrow>
      (\<forall>ts st'. try_fetch net (Suc j) (failed_state 1 j (entered st)) = (Inr ts, st') \<longrightarrow>
                 getTorrents net st = (Inr ts, st')) \<and>
      (\<forall>r ws. net (length (sent st) + j) (torrent_get_request st) = Responded r \<and>
               status r \<noteq> 409 \<and> ok r \<and> body r = Json ''success'' (Val \<lparr> torrents = Val ws \<rparr>) \<longrightarrow>
               fst (getTorrents net st) = Inr (map normalizeTorrent ws) \<and>
               length (sent (snd (getTorrents net st))) = length (sent st) + j + 1 \<and>
               slept (snd (getTorrents net st)) = slept st @ replicate j 1000)) \<and>
   ((\<forall>i<30. \<exists>msg. net (length (sent st) + i) (torrent_get_request st) = Rejected msg \<and>
                   is_connectivity (message_of (wrap_rpc_error msg))) \<longrightarrow>
      (\<exists>msg. net (length (sent st) + 29) (torrent_get_request st) = Rejected msg \<and>
             fst (getTorrents net st) = Inl (wrap_rpc_error msg)) \<and>
      length (sent (snd (getTorrents net st))) = length (sent st) + 30 \<and>
      slept (snd (getTorrents net st)) = slept st @ replicate 29 1000)"
  (is "(?H1 \<longrightarrow> ?A \<and> ?B) \<and> (?H2 \<longrightarrow> ?C)")
proof -
  have S1: ?A if h: ?H1
  proof (intro allI impI)
    fix ts st'
    assume t: "try_fetch net (Suc j) (failed_state 1 j (entered st)) = (Inr ts, st')"
    from h have "getTorrents net st = getTorrents_loop net (Suc j) (failed_state 1 j (entered st))"
      by (intro getTorrents_after_failures) simp_all
    with h t show "getTorrents net st = (Inr ts, st')"
      by (simp add: getTorrents_loop.simps [of net "Suc j"])
  qed
  have S2: ?B if h: ?H1
  proof (intro allI impI)
    fix r ws
    let ?s = "failed_state 1 j (entered st)"
    assume r: "net (length (sent st) + j) (torrent_get_request st) = Responded r \<and>
            status r \<noteq> 409 \<and> ok r \<and> body r = Json ''success'' (Val \<lparr> torrents = Val ws \<rparr>)"
    from h have e: "getTorrents net st = getTorrents_loop net (Suc j) ?s"
      by (intro getTorrents_after_failures) simp_all
    from r have "net (length (sent ?s)) (torrent_get_request ?s) = Responded r"
      by (simp add: failed_state_facts entered_facts)
    with try_fetch_success [where net = net and st = "?s" and r = r and ws = ws and k = "Suc j"] r
    have t: "fst (try_fetch net (Suc j) ?s) = Inr (map normalizeTorrent ws)"
      "sent (snd (try_fetch net (Suc j) ?s)) = sent ?s @ [torrent_get_request ?s]"
      "slept (snd (try_fetch net (Suc j) ?s)) = slept ?s"
      by simp_all
    obtain st' where p: "try_fetch net (Suc j) ?s = (Inr (map normalizeTorrent ws), st')"
      using t(1) by (cases "try_fetch net (Suc j) ?s") simp
    with e h have g: "getTorrents net st = (Inr (map normalizeTorrent ws), st')"
      by (simp add: getTorrents_loop.simps [of net "Suc j"])
    from t p g
    show "fst (getTorrents net st) = Inr (map normalizeTorrent ws) \<and>
          length (sent (snd (getTorrents net st))) = length (sent st) + j + 1 \<and>
          slept (snd (getTorrents net st)) = slept st @ replicate j 1000"
      by (simp add: failed_state_facts entered_facts)
  qed
  have F: ?C if h: ?H2
  proof -
    let ?s = "failed_state 1 29 (entered st)"
    from h have "\<forall>i<29. \<exists>msg. net (length (sent st) + i) (torrent_get_request st) = Rejected msg \<and>
                     is_connectivity (message_of (wrap_rpc_error msg))"
      by simp
    then have e: "getTorrents net st = getTorrents_loop net (Suc 29) ?s"
      by (intro getTorrents_after_failures) simp_all
    have "(29::nat) < 30" by simp
    from h [rule_format, OF this]
    obtain msg where m: "net (length (sent st) + 29) (torrent_get_request st) = Rejected msg"
      "is_connectivity (message_of (wrap_rpc_error msg))"
      by auto
    then have "net (length (sent ?s)) (torrent_get_request ?s) = Rejected msg"
      by (simp add: failed_state_facts entered_facts)
    with last_attempt_fails [where net = net and st = "?s" and msg = msg] m(2) e
    have g: "getTorrents net st =
               (Inl (wrap_rpc_error msg),
                log_write (LogError ''Connection failed after 30 attempts'')
                  (?s\<lparr>sent := sent ?s @ [torrent_get_request ?s]\<rparr>))"
      by simp
    with m(1) have 1: "\<exists>msg. net (length (sent st) + 29) (torrent_get_request st) = Rejected msg \<and>
               fst (getTorrents net st) = Inl (wrap_rpc_error msg)"
      by auto
    from g have 2: "length (sent (snd (getTorrents net st))) = length (sent st) + 30"
      by (simp add: log_write_def failed_state_facts entered_facts)
    from g have 3: "slept (snd (getTorrents net st)) = slept st @ replicate 29 1000"
      by (simp add: log_write_def failed_state_facts entered_facts)
    from 1 2 3 show ?thesis by (intro conjI)
  qed
  show ?thesis
  proof (rule conjI)
    show "?H1 \<longrightarrow> ?A \<and> ?B"
    proof
      assume h: ?H1
      from S1 [OF h] S2 [OF h] show "?A \<and> ?B" by (rule conjI)
    qed
    show "?H2 \<longrightarrow> ?C" by (rule impI) (rule F)
  qed
qed

theorem getTorrents_connectivity_retry_witness:
  "net_late 0 (torrent_get_request example_state) = Rejected ''fetch failed'' \<and>
   is_connectivity (message_of (wrap_rpc_error ''fetch failed'')) \<and>
   net_late 29 (torrent_get_request example_state) = Responded success_response \<and>
   fst (getTorrents net_late example_state) = Inr [normalizeTorrent example_wire_torrent] \<and>
   length (sent (snd (getTorrents net_late example_state))) = 30 \<and>
   slept (snd (getTorrents net_late example_state)) = replicate 29 1000 \<and>
   fst (getTorrents net_down example_state) = Inl (wrap_rpc_error ''fetch failed'') \<and>
   length (sent (snd (getTorrents net_down example_state))) = 30 \<and>
   slept (snd (getTorrents net_down example_state)) = replicate 29 1000"
proof -
  have c: "is_connectivity (message_of (wrap_rpc_error ''fetch failed''))"
    by code_simp
  have s: "length (sent example_state) = 0" "slept example_state = []"
    by (simp_all add: example_state_def)
  have l0: "net_late 0 (torrent_get_request example_state) = Rejected ''fetch failed''"
    by (simp add: net_late_def)
  have l29: "net_late 29 (torrent_get_request example_state) = Responded success_response"
    by (simp add: net_late_def)
  have late: "(29::nat) < 30 \<and>
    (\<forall>i<29. \<exists>msg. net_late (length (sent example_state) + i)
                      (torrent_get_request example_state) = Rejected msg \<and>
                    is_connectivity (message_of (wrap_rpc_error msg)))"
    using c by (simp add: net_late_def s)
  have resp: "net_late (length (sent example_state) + 29) (torrent_get_request example_state) =
              Responded success_response \<and>
            status success_response \<noteq> 409 \<and> ok success_response \<and>
            body success_response = Json ''success'' (Val \<lparr> torrents = Val [example_wire_torrent] \<rparr>)"
    by (simp add: net_late_def success_response_def ok_def s)
  have down: "\<forall>i<30. \<exists>msg. net_down (length (sent example_state) + i)
                      (torrent_get_request example_state) = Rejected msg \<and>
                    is_connectivity (message_of (wrap_rpc_error msg))"
    using c by (simp add: net_down_def)
  note up = getTorrents_connectivity_retry [where j = 29 and net = net_late and st = example_state]
  note up1 = up [THEN conjunct1, THEN mp, OF late, THEN conjunct2]
  note up2 = up1 [THEN spec, THEN spec, THEN mp, OF resp]
  from up2 have 1: "fst (getTorrents net_late example_state) = Inr [normalizeTorrent example_wire_torrent]"
    by simp
  from up2 have 2: "length (sent (snd (getTorrents net_late example_state))) = 30"
    unfolding s by simp
  from up2 have 3: "slept (snd (getTorrents net_late example_state)) = replicate 29 1000"
    unfolding s by simp
  note dn = getTorrents_connectivity_retry [where j = 0 and net = net_down and st = example_state]
  note dn1 = dn [THEN conjunct2, THEN mp, OF down]
  from dn1 have 4: "fst (getTorrents net_down example_state) = Inl (wrap_rpc_error ''fetch failed'')"
    by (simp add: net_down_def)
  from dn1 have 5: "length (sent (snd (getTorrents net_down example_state))) = 30"
    unfolding s by simp
  from dn1 have 6: "slept (snd (getTorrents net_down example_state)) = replicate 29 1000"
    unfolding s by simp
  from l0 c l29 1 2 3 4 5 6 show ?thesis by (intro conjI)
qed

lemma rpc_not_ok:
  "net (length (sent st)) (build_request st m a) = Responded r \<Longrightarrow> status r \<noteq> 409 \<Longrightarrow>
   \<not> ok r \<Longrightarrow>
   rpc net m a retryCount st =
     (Inl (api_failed r), capture_session r (st\<lparr>sent := sent st @ [build_request st m a]\<rparr>))"
  by (simp add: rpc.simps [of net m a retryCount st] rpc_once_def Let_def api_failed_def)

lemma try_fetch_not_ok:
  assumes "net (length (sent st)) (torrent_get_request st) = Responded r"
    and "status r \<noteq> 409" and "\<not> ok r"
  shows "\<exists>st1. try_fetch net k st = (Inl (api_failed r), st1) \<and>
               length (sent st1) = Suc (length (sent st)) \<and> slept st1 = slept st"
  using assms capture_session_frame [of "st\<lparr>sent := sent st @ [torrent_get_request st]\<rparr>" r]
  by (simp add: try_fetch_def torrent_get_request_def rpc_not_ok same_frame_def)

lemma catch_fetch_retries:
  "k < 30 \<Longrightarrow>
   \<exists>st2. catch_fetch k err st1 = (NextAttempt, st2) \<and> sent st2 = sent st1 \<and>
         slept st2 = slept st1 @ [1000]"
  by (simp add: catch_fetch_def after_classification_def Let_def sleep_def log_write_def)

lemma catch_fetch_rethrows:
  "30 \<le> k \<Longrightarrow>
   \<exists>st2. catch_fetch k err st1 = (Rethrow, st2) \<and> sent st2 = sent st1 \<and> slept st2 = slept st1"
  by (simp add: catch_fetch_def after_classification_def Let_def sleep_def log_write_def)

lemma loop_retries_every_error:
  assumes net: "\<forall>n req. net n req = Responded r" and r: "status r \<noteq> 409" "\<not> ok r"
  shows "1 \<le> k \<Longrightarrow> k \<le> 30 \<Longrightarrow> n = 30 - k \<Longrightarrow>
         fst (getTorrents_loop net k st) = Inl (api_failed r) \<and>
         length (sent (snd (getTorrents_loop net k st))) = length (sent st) + Suc n \<and>
         slept (snd (getTorrents_loop net k st)) = slept st @ replicate n 1000"
proof (induction n arbitrary: k st)
  case 0
  then have k: "k = 30" by simp
  from net have "net (length (sent st)) (torrent_get_request st) = Responded r" by simp
  with try_fetch_not_ok [where net = net and st = st and r = r and k = k] r
  obtain st1 where t: "try_fetch net k st = (Inl (api_failed r), st1)"
    "length (sent st1) = Suc (length (sent st))" "slept st1 = slept st"
    by blast
  from catch_fetch_rethrows [of k "api_failed r" st1] k
  obtain st2 where c: "catch_fetch k (api_failed r) st1 = (Rethrow, st2)"
    "sent st2 = sent st1" "slept st2 = slept st1"
    by auto
  from t c \<open>k \<le> 30\<close> have "getTorrents_loop net k st = (Inl (api_failed r), st2)"
    by (simp add: getTorrents_loop.simps [of net k st])
  with t c show ?case by simp
next
  case (Suc n)
  then have k: "k < 30" "1 \<le> k" by simp_all
  from net have "net (length (sent st)) (torrent_get_request st) = Responded r" by simp
  with try_fetch_not_ok [where net = net and st = st and r = r and k = k] r
  obtain st1 where t: "try_fetch net k st = (Inl (api_failed r), st1)"
    "length (sent st1) = Suc (length (sent st))" "slept st1 = slept st"
    by blast
  from catch_fetch_retries [OF k(1), of "api_failed r" st1]
  obtain st2 where c: "catch_fetch k (api_failed r) st1 = (NextAttempt, st2)"
    "sent st2 = sent st1" "slept st2 = slept st1 @ [1000]"
    by auto
  from t c k have e: "getTorrents_loop net k st = getTorrents_loop net (Suc k) st2"
    by (simp add: getTorrents_loop.simps [of net k st])
  from Suc.prems have "1 \<le> Suc k" "Suc k \<le> 30" "n = 30 - Suc k" by simp_all
  from Suc.IH [OF this, of st2] e t c show ?case
    by (simp add: replicate_append_same)
qed

text \<open>
  C3.  The claim is that an error that is not a connectivity error is not retried.  The loop
  does otherwise: a daemon that answers every request with status 401 receives 30
  requests, separated by 29 delays of 1000 ms, before the error, whose message matches no
  connectivity pattern, reaches the caller.
\<close>

theorem getTorrents_retries_unauthorized:
  "\<not> is_connectivity (message_of (api_failed unauthorized_response)) \<and>
   fst (getTorrents net_unauthorized example_state) = Inl (api_failed unauthorized_response) \<and>
   api_failed unauthorized_response =
     Error ''Transmission RPC call failed: API request failed: [401] Unauthorized'' \<and>
   length (sent (snd (getTorrents net_unauthorized example_state))) = 30 \<and>
   slept (snd (getTorrents net_unauthorized example_state)) = replicate 29 1000"
proof -
  have n: "\<forall>n req. net_unauthorized n req = Responded unauthorized_response"
    by (simp add: net_unauthorized_def)
  have r: "status unauthorized_response \<noteq> 409" "\<not> ok unauthorized_response"
    by (simp_all add: unauthorized_response_def ok_def)
  have c: "\<not> is_connectivity (message_of (api_failed unauthorized_response))"
    by code_simp
  have m: "api_failed unauthorized_response =
     Error ''Transmission RPC call failed: API request failed: [401] Unauthorized''"
    by code_simp
  have g: "getTorrents net_unauthorized example_state =
           getTorrents_loop net_unauthorized 1 (entered example_state)"
    by (simp add: getTorrents_def entered_def)
  have s: "sent (entered example_state) = []" "slept (entered example_state) = []"
    by (simp_all add: entered_def example_state_def)
  have k: "(1::nat) \<le> 1" "(1::nat) \<le> 30" "(29::nat) = 30 - 1" by simp_all
  note loop = loop_retries_every_error [where net = net_unauthorized
      and r = unauthorized_response and k = 1 and n = 29 and st = "entered example_state",
      OF n r k]
  from loop have 1:
    "fst (getTorrents net_unauthorized example_state) = Inl (api_failed unauthorized_response)"
    unfolding g by (rule conjunct1)
  from loop have 2: "length (sent (snd (getTorrents net_unauthorized example_state))) = 30"
    unfolding g s by simp
  from loop have 3: "slept (snd (getTorrents net_unauthorized example_state)) = replicate 29 1000"
    unfolding g s by simp
  from c 1 m 2 3 show ?thesis by (intro conjI)
qed

section \<open>Properties of a run\<close>

lemma try_fetch_frame:
  assumes "try_fetch net k st = (res, st1)"
  shows "calls st1 = calls st \<and> isFirstRun st1 = isFirstRun st \<and>
         (\<exists>reqs. sent st1 = sent st @ reqs \<and> (\<forall>q \<in> set reqs. rpc_method q = ''torrent-get''))"
proof -
  obtain r s where e: "rpc net ''torrent-get'' (TorrentGetArgs torrent_get_fields) 0 st = (r, s)"
    by (cases "rpc net ''torrent-get'' (TorrentGetArgs torrent_get_fields) 0 st")
  have "(0::nat) \<le> 2" by simp
  from rpc_frame [OF this e]
  have f: "same_frame st s"
    and q: "\<exists>reqs. sent s = sent st @ reqs \<and> (\<forall>q \<in> set reqs. rpc_method q = ''torrent-get'')"
    by auto
  from assms e have "calls st1 = calls s \<and> isFirstRun st1 = isFirstRun s \<and> sent st1 = sent s"
    by (auto simp: try_fetch_def log_write_def split: sum.splits)
  with f q show ?thesis by (simp add: same_frame_def)
qed

lemma catch_fetch_frame:
  "catch_fetch k err st = (ctl, st1) \<Longrightarrow>
   calls st1 = calls st \<and> isFirstRun st1 = isFirstRun st \<and> sent st1 = sent st"
  by (auto simp: catch_fetch_def after_classification_def Let_def sleep_def log_write_def
           split: if_splits)

lemma getTorrents_loop_frame:
  "getTorrents_loop net k st = (res, st') \<Longrightarrow>
   calls st' = calls st \<and> isFirstRun st' = isFirstRun st \<and>
   (\<exists>reqs. sent st' = sent st @ reqs \<and> (\<forall>q \<in> set reqs. rpc_method q = ''torrent-get''))"
proof (induction net k st arbitrary: res st' rule: getTorrents_loop.induct)
  case (1 net attempt st)
  show ?case
  proof (cases "attempt \<le> 30")
    case False
    with "1.prems" show ?thesis by (simp add: getTorrents_loop.simps [of net attempt st])
  next
    case True
    obtain r st1 where t: "try_fetch net attempt st = (r, st1)"
      by (cases "try_fetch net attempt st")
    note f1 = try_fetch_frame [OF t]
    show ?thesis
    proof (cases r)
      case (Inr ts)
      with "1.prems" True t have "st' = st1"
        by (simp add: getTorrents_loop.simps [of net attempt st])
      with f1 show ?thesis by simp
    next
      case (Inl err)
      obtain ctl st2 where c: "catch_fetch attempt err st1 = (ctl, st2)"
        by (cases "catch_fetch attempt err st1")
      note f2 = catch_fetch_frame [OF c]
      from f1 obtain reqs1 where q1: "sent st1 = sent st @ reqs1"
        "\<forall>q \<in> set reqs1. rpc_method q = ''torrent-get''" by blast
      show ?thesis
      proof (cases ctl)
        case Rethrow
        with "1.prems" True t Inl c have "st' = st2"
          by (simp add: getTorrents_loop.simps [of net attempt st])
        with f1 f2 show ?thesis by simp
      next
        case NextAttempt
        with "1.prems" True t Inl c
        have rec: "getTorrents_loop net (attempt + 1) st2 = (res, st')"
          by (simp add: getTorrents_loop.simps [of net attempt st])
        from "1.IH" [OF True t [symmetric] Inl c [symmetric] NextAttempt rec]
        obtain reqs2 where f3: "calls st' = calls st2" "isFirstRun st' = isFirstRun st2"
          and q2: "sent st' = sent st2 @ reqs2" "\<forall>q \<in> set reqs2. rpc_method q = ''torrent-get''"
          by blast
        have "sent st' = sent st @ (reqs1 @ reqs2)" using q1 q2 f2 by simp
        moreover have "\<forall>q \<in> set (reqs1 @ reqs2). rpc_method q = ''torrent-get''"
          using q1 q2 by auto
        ultimately have "\<exists>reqs. sent st' = sent st @ reqs \<and>
                          (\<forall>q \<in> set reqs. rpc_method q = ''torrent-get'')" by blast
        with f1 f2 f3 show ?thesis by simp
      qed
    qed
  qed
qed

lemma getTorrents_frame:
  assumes "getTorrents net st = (res, st')"
  shows "calls st' = calls st @ [GetTorrents] \<and> isFirstRun st' = isFirstRun st \<and>
         (\<exists>reqs. sent st' = sent st @ reqs \<and> (\<forall>q \<in> set reqs. rpc_method q = ''torrent-get''))"
  using getTorrents_loop_frame [of net 1 "entered st" res st'] assms
  by (simp add: getTorrents_def entered_def)

lemma removeTorrents_frame:
  assumes "removeTorrents net ids flag st = (res, st')"
  shows "calls st' = calls st @ [RemoveTorrents ids flag] \<and>
         (\<exists>reqs. sent st' = sent st @ reqs \<and> reqs \<noteq> [] \<and> length reqs \<le> 3 \<and>
            (\<forall>q \<in> set reqs. rpc_method q = ''torrent-remove'' \<and>
                              rpc_arguments q = TorrentRemoveArgs ids flag))"
proof -
  let ?s = "st\<lparr>calls := calls st @ [RemoveTorrents ids flag]\<rparr>"
  obtain r s where e: "rpc net ''torrent-remove'' (TorrentRemoveArgs ids flag) 0 ?s = (r, s)"
    by (cases "rpc net ''torrent-remove'' (TorrentRemoveArgs ids flag) 0 ?s")
  have "(0::nat) \<le> 2" by simp
  from rpc_frame [OF this e]
  have f: "same_frame ?s s"
    and q: "\<exists>reqs. sent s = sent ?s @ reqs \<and> reqs \<noteq> [] \<and> length reqs \<le> 3 - 0 \<and>
              (\<forall>q \<in> set reqs. rpc_method q = ''torrent-remove'' \<and>
                                rpc_arguments q = TorrentRemoveArgs ids flag)"
    by auto
  from assms e have "st' = s" by (auto simp: removeTorrents_def split: sum.splits)
  with f q show ?thesis by (simp add: same_frame_def)
qed

lemma log_candidates_frame:
  "calls (log_candidates cs st) = calls st \<and> sent (log_candidates cs st) = sent st \<and>
   logged (log_candidates cs st) =
     logged st @ map (\<lambda>c. LogInfo (''['' @ reason_upper (reason c) @ ''] '' @ name (torrent c))) cs"
  unfolding log_candidates_def
  by (induction cs arbitrary: st) (simp_all add: log_write_def)

lemma run_after_fetch:
  assumes "getTorrents net (announce_fetch cfg st) = (Inr raws, st1)"
    and "select_eligible cfg pf (hydrateAll clock raws) = Inr (byLabel, eligible)"
  obtains st4 where "calls st4 = calls st1" and "sent st4 = sent st1"
    and "run cfg pf clock net st =
           (if candidates_of cfg eligible = []
            then (Inr (), log_write (LogInfo ''No torrents to remove'') st4)
            else performRemoval cfg net
                   (map (\<lambda>c. torrent_id (torrent c)) (candidates_of cfg eligible))
                   (log_candidates (candidates_of cfg eligible)
                      (log_write (LogInfo (''Found '' @ showNat (length (candidates_of cfg eligible)) @
                                           '' candidate(s) for removal:''))
                         (log_write (LogInfo separator) st4))))"
proof -
  let ?st2 = "log_write (LogInfo (''Connected to Transmission: '' @
                                  showNat (length raws) @ '' torrents'')) st1"
  let ?st3 = "if isFirstRun ?st2
              then (log_write (LogInfo separator)
                      (displayTorrentsSummary (hydrateAll clock raws) ?st2))\<lparr>isFirstRun := False\<rparr>
              else ?st2"
  let ?st4 = "log_write (LogInfo (''Filtering: '' @ showNat (length raws) @
                                  '' total -> '' @ showNat (length byLabel) @
                                  '' by label -> '' @ showNat (length eligible) @
                                  '' eligible'')) ?st3"
  have c: "calls ?st4 = calls st1" and s: "sent ?st4 = sent st1"
    by (simp_all add: log_write_def displayTorrentsSummary_def)
  have "run cfg pf clock net st =
           (if candidates_of cfg eligible = []
            then (Inr (), log_write (LogInfo ''No torrents to remove'') ?st4)
            else performRemoval cfg net
                   (map (\<lambda>c. torrent_id (torrent c)) (candidates_of cfg eligible))
                   (log_candidates (candidates_of cfg eligible)
                      (log_write (LogInfo (''Found '' @ showNat (length (candidates_of cfg eligible)) @
                                           '' candidate(s) for removal:''))
                         (log_write (LogInfo separator) ?st4))))"
    using assms by (simp add: run_def Let_def)
  with c s show thesis by (rule that)
qed

text \<open>
  C10.  When the fetch succeeds, the filters complete and the rule engine yields no
  candidate, \<^verbatim>\<open>run\<close> returns normally whatever the dry-run flag is; the only client method
  it has invoked is \<^verbatim>\<open>getTorrents\<close>, every request it has sent is a \<^verbatim>\<open>torrent-get\<close>, and
  the last line logged is "No torrents to remove".
\<close>

theorem run_without_candidates:
  assumes "getTorrents net (announce_fetch cfg st) = (Inr raws, st1)"
    and "select_eligible cfg pf (hydrateAll clock raws) = Inr (byLabel, eligible)"
    and "candidates_of cfg eligible = []"
  shows "fst (run cfg pf clock net st) = Inr () \<and>
         calls (snd (run cfg pf clock net st)) = calls st @ [GetTorrents] \<and>
         (\<exists>reqs. sent (snd (run cfg pf clock net st)) = sent st @ reqs \<and>
                 (\<forall>q \<in> set reqs. rpc_method q = ''torrent-get'')) \<and>
         last (logged (snd (run cfg pf clock net st))) = LogInfo ''No torrents to remove''"
proof -
  from run_after_fetch [OF assms(1,2)] obtain st4 where
    f: "calls st4 = calls st1" "sent st4 = sent st1"
    and r: "run cfg pf clock net st =
              (if candidates_of cfg eligible = []
               then (Inr (), log_write (LogInfo ''No torrents to remove'') st4)
               else performRemoval cfg net
                      (map (\<lambda>c. torrent_id (torrent c)) (candidates_of cfg eligible))
                      (log_candidates (candidates_of cfg eligible)
                         (log_write (LogInfo (''Found '' @ showNat (length (candidates_of cfg eligible)) @
                                              '' candidate(s) for removal:''))
                            (log_write (LogInfo separator) st4))))"
    by blast
  from r assms(3)
  have e: "run cfg pf clock net st = (Inr (), log_write (LogInfo ''No torrents to remove'') st4)"
    by simp
  from getTorrents_frame [OF assms(1)]
  have g: "calls st1 = calls st @ [GetTorrents]"
    "\<exists>reqs. sent st1 = sent st @ reqs \<and> (\<forall>q \<in> set reqs. rpc_method q = ''torrent-get'')"
    by (simp_all add: announce_fetch_def log_write_def)
  from e f g show ?thesis by (simp add: log_write_def)
qed

theorem run_without_candidates_witness:
  "fst (getTorrents net_negotiating (announce_fetch quiet_config example_state)) =
     Inr [normalizeTorrent example_wire_torrent] \<and>
   candidates_of quiet_config
     (hydrateAll clock_early [normalizeTorrent example_wire_torrent]) = [] \<and>
   \<not> dryRun quiet_config \<and>
   fst (run quiet_config example_platform clock_early net_negotiating example_state) = Inr () \<and>
   calls (snd (run quiet_config example_platform clock_early net_negotiating example_state)) =
     [GetTorrents] \<and>
   last (logged (snd (run quiet_config example_platform clock_early net_negotiating example_state))) =
     LogInfo ''No torrents to remove''"
proof -
  let ?raws = "[normalizeTorrent example_wire_torrent]"
  let ?hs = "hydrateAll clock_early ?raws"
  have g: "fst (getTorrents net_negotiating (announce_fetch quiet_config example_state)) = Inr ?raws"
    by code_simp
  then have fetch: "getTorrents net_negotiating (announce_fetch quiet_config example_state) =
      (Inr ?raws, snd (getTorrents net_negotiating (announce_fetch quiet_config example_state)))"
    by (metis prod.collapse)
  have sel: "select_eligible quiet_config example_platform ?hs = Inr (?hs, ?hs)"
    by code_simp
  have none: "candidates_of quiet_config ?hs = []"
    by code_simp
  have d: "\<not> dryRun quiet_config"
    by (simp add: quiet_config_def example_config_def)
  have c0: "calls example_state = []" by (simp add: example_state_def)
  note inst = run_without_candidates [OF fetch sel none]
  from inst have 1: "fst (run quiet_config example_platform clock_early net_negotiating example_state) = Inr ()"
    by (rule conjunct1)
  from inst [THEN conjunct2, THEN conjunct1]
  have 2: "calls (snd (run quiet_config example_platform clock_early net_negotiating example_state)) =
             [GetTorrents]"
    unfolding c0 by simp
  from inst [THEN conjunct2, THEN conjunct2, THEN conjunct2]
  have 3: "last (logged (snd (run quiet_config example_platform clock_early net_negotiating
                                 example_state))) = LogInfo ''No torrents to remove''" .
  from g none d 1 2 3 show ?thesis by (intro conjI)
qed

text \<open>
  C7.  When the fetch succeeds, the filters complete and there is at least one candidate:
  with the dry-run flag set, \<^verbatim>\<open>run\<close> returns normally, the only client method invoked is
  \<^verbatim>\<open>getTorrents\<close>, every request sent is a \<^verbatim>\<open>torrent-get\<close>, each candidate has its line in
  the log and the last line is the dry-run warning; with the flag clear, \<^verbatim>\<open>removeTorrents\<close> is
  invoked exactly once, after \<^verbatim>\<open>getTorrents\<close>, with the candidate identifiers in order and
  \<^verbatim>\<open>deleteLocalData = true\<close>, and the requests it sends (between one and three, because of
  session negotiation) are all that \<^verbatim>\<open>torrent-remove\<close> call.
\<close>

theorem run_removal_calls:
  assumes "getTorrents net (announce_fetch cfg st) = (Inr raws, st1)"
    and "select_eligible cfg pf (hydrateAll clock raws) = Inr (byLabel, eligible)"
    and "candidates_of cfg eligible \<noteq> []"
  shows "(dryRun cfg \<longrightarrow>
            fst (run cfg pf clock net st) = Inr () \<and>
            calls (snd (run cfg pf clock net st)) = calls st @ [GetTorrents] \<and>
            (\<exists>reqs. sent (snd (run cfg pf clock net st)) = sent st @ reqs \<and>
                    (\<forall>q \<in> set reqs. rpc_method q = ''torrent-get'')) \<and>
            (\<forall>c \<in> set (candidates_of cfg eligible).
               LogInfo (''['' @ reason_upper (reason c) @ ''] '' @ name (torrent c))
                 \<in> set (logged (snd (run cfg pf clock net st)))) \<and>
            last (logged (snd (run cfg pf clock net st))) =
              LogWarn (''DRY_RUN enabled - skipping removal of '' @
                       showNat (length (candidates_of cfg eligible)) @ '' torrent(s)'')) \<and>
         (\<not> dryRun cfg \<longrightarrow>
            calls (snd (run cfg pf clock net st)) =
              calls st @ [GetTorrents,
                          RemoveTorrents (map (\<lambda>c. torrent_id (torrent c))
                                              (candidates_of cfg eligible)) True] \<and>
            (\<exists>reqs. sent (snd (run cfg pf clock net st)) = sent st1 @ reqs \<and>
                    reqs \<noteq> [] \<and> length reqs \<le> 3 \<and>
                    (\<forall>q \<in> set reqs. rpc_method q = ''torrent-remove'' \<and>
                       rpc_arguments q =
                         TorrentRemoveArgs (map (\<lambda>c. torrent_id (torrent c))
                                                (candidates_of cfg eligible)) True)))"
proof -
  let ?cs = "candidates_of cfg eligible"
  let ?ids = "map (\<lambda>c. torrent_id (torrent c)) ?cs"
  from run_after_fetch [OF assms(1,2)] obtain st4 where
    f: "calls st4 = calls st1" "sent st4 = sent st1"
    and r: "run cfg pf clock net st =
              (if ?cs = []
               then (Inr (), log_write (LogInfo ''No torrents to remove'') st4)
               else performRemoval cfg net ?ids
                      (log_candidates ?cs
                         (log_write (LogInfo (''Found '' @ showNat (length ?cs) @
                                              '' candidate(s) for removal:''))
                            (log_write (LogInfo separator) st4))))"
    by blast
  let ?st7 = "log_candidates ?cs
                (log_write (LogInfo (''Found '' @ showNat (length ?cs) @
                                     '' candidate(s) for removal:''))
                   (log_write (LogInfo separator) st4))"
  from r assms(3) have e: "run cfg pf clock net st = performRemoval cfg net ?ids ?st7"
    by simp
  from getTorrents_frame [OF assms(1)]
  have g: "calls st1 = calls st @ [GetTorrents]"
    "\<exists>reqs. sent st1 = sent st @ reqs \<and> (\<forall>q \<in> set reqs. rpc_method q = ''torrent-get'')"
    by (simp_all add: announce_fetch_def log_write_def)
  have f7: "calls ?st7 = calls st1" "sent ?st7 = sent st1"
    using f by (simp_all add: log_candidates_frame log_write_def)
  have l7: "\<forall>c \<in> set ?cs. LogInfo (''['' @ reason_upper (reason c) @ ''] '' @ name (torrent c))
                             \<in> set (logged ?st7)"
    by (simp add: log_candidates_frame)
  show ?thesis
  proof (intro conjI impI)
    assume d: "dryRun cfg"
    then have p: "run cfg pf clock net st =
             (Inr (), log_write (LogWarn (''DRY_RUN enabled - skipping removal of '' @
                                          showNat (length ?ids) @ '' torrent(s)'')) ?st7)"
      using e by (simp add: performRemoval_def)
    from p show "fst (run cfg pf clock net st) = Inr ()" by simp
    from p f7 g show "calls (snd (run cfg pf clock net st)) = calls st @ [GetTorrents]"
      by (simp add: log_write_def)
    from p f7 g show "\<exists>reqs. sent (snd (run cfg pf clock net st)) = sent st @ reqs \<and>
                    (\<forall>q \<in> set reqs. rpc_method q = ''torrent-get'')"
      by (simp add: log_write_def)
    from p l7 show "\<forall>c \<in> set ?cs.
               LogInfo (''['' @ reason_upper (reason c) @ ''] '' @ name (torrent c))
                 \<in> set (logged (snd (run cfg pf clock net st)))"
      by (simp add: log_write_def)
    from p show "last (logged (snd (run cfg pf clock net st))) =
              LogWarn (''DRY_RUN enabled - skipping removal of '' @
                       showNat (length ?cs) @ '' torrent(s)'')"
      by (simp add: log_write_def)
  next
    assume d: "\<not> dryRun cfg"
    obtain res s8 where rm: "removeTorrents net ?ids True ?st7 = (res, s8)"
      by (cases "removeTorrents net ?ids True ?st7")
    from removeTorrents_frame [OF rm]
    have c8: "calls s8 = calls ?st7 @ [RemoveTorrents ?ids True]"
      and q8: "\<exists>reqs. sent s8 = sent ?st7 @ reqs \<and> reqs \<noteq> [] \<and> length reqs \<le> 3 \<and>
                (\<forall>q \<in> set reqs. rpc_method q = ''torrent-remove'' \<and>
                                  rpc_arguments q = TorrentRemoveArgs ?ids True)"
      by simp_all
    from e d rm have
      "calls (snd (run cfg pf clock net st)) = calls s8 \<and>
       sent (snd (run cfg pf clock net st)) = sent s8"
      by (cases res) (simp_all add: performRemoval_def log_write_def)
    with c8 q8 f7 g
    show "calls (snd (run cfg pf clock net st)) =
            calls st @ [GetTorrents, RemoveTorrents ?ids True]"
      and "\<exists>reqs. sent (snd (run cfg pf clock net st)) = sent st1 @ reqs \<and>
                    reqs \<noteq> [] \<and> length reqs \<le> 3 \<and>
                    (\<forall>q \<in> set reqs. rpc_method q = ''torrent-remove'' \<and>
                       rpc_arguments q = TorrentRemoveArgs ?ids True)"
      by simp_all
  qed
qed

theorem run_removal_calls_witness:
  "fst (getTorrents net_negotiating (announce_fetch quiet_config example_state)) =
     Inr [normalizeTorrent example_wire_torrent] \<and>
   map reason (candidates_of quiet_config
                 (hydrateAll clock_late [normalizeTorrent example_wire_torrent])) = [Dead] \<and>
   \<not> dryRun quiet_config \<and>
   calls (snd (run quiet_config example_platform clock_late net_negotiating example_state)) =
     [GetTorrents, RemoveTorrents [Num 7] True] \<and>
   dryRun dry_config \<and>
   fst (run dry_config example_platform clock_late net_negotiating example_state) = Inr () \<and>
   calls (snd (run dry_config example_platform clock_late net_negotiating example_state)) =
     [GetTorrents]"
proof -
  let ?raws = "[normalizeTorrent example_wire_torrent]"
  let ?hs = "hydrateAll clock_late ?raws"
  have u: "announce_fetch dry_config example_state = announce_fetch quiet_config example_state"
    by (simp add: announce_fetch_def dry_config_def)
  have g: "fst (getTorrents net_negotiating (announce_fetch quiet_config example_state)) = Inr ?raws"
    by code_simp
  then have fetch: "getTorrents net_negotiating (announce_fetch quiet_config example_state) =
      (Inr ?raws, snd (getTorrents net_negotiating (announce_fetch quiet_config example_state)))"
    by (metis prod.collapse)
  have sel: "select_eligible quiet_config example_platform ?hs = Inr (?hs, ?hs)"
    by code_simp
  have sel': "select_eligible dry_config example_platform ?hs = Inr (?hs, ?hs)"
    by code_simp
  have rs: "map reason (candidates_of quiet_config ?hs) = [Dead]"
    by code_simp
  then have ne: "candidates_of quiet_config ?hs \<noteq> []" by auto
  have "evaluate dry_config = evaluate quiet_config"
    by (rule ext) (simp add: evaluate_def checkRatioRule_def checkDeadRule_def
          checkTtlRule_def dry_config_def)
  then have cs': "candidates_of dry_config ?hs = candidates_of quiet_config ?hs"
    by (simp add: candidates_of_def)
  have ids: "map (\<lambda>c. torrent_id (torrent c)) (candidates_of quiet_config ?hs) = [Num 7]"
    by code_simp
  have d: "\<not> dryRun quiet_config" "dryRun dry_config"
    by (simp_all add: quiet_config_def dry_config_def example_config_def)
  have c0: "calls example_state = []" by (simp add: example_state_def)
  note wet = run_removal_calls [OF fetch sel ne]
  from wet [THEN conjunct2, THEN mp, OF d(1), THEN conjunct1]
  have 1: "calls (snd (run quiet_config example_platform clock_late net_negotiating example_state)) =
             [GetTorrents, RemoveTorrents [Num 7] True]"
    unfolding ids c0 by simp
  note dry = run_removal_calls [OF fetch [folded u] sel' ne [folded cs']]
  note dry1 = dry [THEN conjunct1, THEN mp, OF d(2)]
  from dry1 have 2: "fst (run dry_config example_platform clock_late net_negotiating example_state) = Inr ()"
    by (rule conjunct1)
  from dry1 [THEN conjunct2, THEN conjunct1]
  have 3: "calls (snd (run dry_config example_platform clock_late net_negotiating example_state)) =
             [GetTorrents]"
    unfolding c0 by simp
  from g rs d 1 2 3 show ?thesis by (intro conjI)
qed

end
